theory Spec2Isabelle
  imports Main
begin

section \<open>Python values, dictionaries and exceptions\<close>

text \<open>
  The service (\<^verbatim>\<open>you.py\<close>) reads metadata dictionaries produced by the extraction library
  and builds dictionaries of its own. The leaves of a format dictionary are \<^verbatim>\<open>None\<close>,
  numbers and strings; numbers are modelled by \<open>int\<close> (finite numbers are compared by
  value). A dictionary literal with distinct keys is an association list, \<^verbatim>\<open>d.get(k)\<close> is a
  lookup that yields \<^verbatim>\<open>None\<close> for an absent key.
\<close>

datatype scalar = SNone | SInt int | SStr string

type_synonym pydict = "(string \<times> scalar) list"

datatype pyval = Scalar scalar | StrList "string list" | DictList "pydict list"

type_synonym info_dict = "(string \<times> pyval) list"

datatype exn =
    ValueError string
  | TypeError string
  | AttributeError string
  | KeyError string
  | OtherException string

definition quoted :: "string \<Rightarrow> string" where
  "quoted s = CHR 0x27 # s @ [CHR 0x27]"

fun exn_str :: "exn \<Rightarrow> string" where
  "exn_str (ValueError m) = m"
| "exn_str (TypeError m) = m"
| "exn_str (AttributeError m) = m"
| "exn_str (KeyError k) = quoted k"
| "exn_str (OtherException m) = m"

fun scalar_type :: "scalar \<Rightarrow> string" where
  "scalar_type SNone = ''NoneType''"
| "scalar_type (SInt n) = ''int''"
| "scalar_type (SStr s) = ''str''"

definition no_attribute :: "string \<Rightarrow> string \<Rightarrow> exn" where
  "no_attribute ty attr =
     AttributeError (quoted ty @ '' object has no attribute '' @ quoted attr)"

definition not_iterable :: "string \<Rightarrow> exn" where
  "not_iterable ty = TypeError (quoted ty @ '' object is not iterable'')"

definition gt_unsupported :: "scalar \<Rightarrow> scalar \<Rightarrow> exn" where
  "gt_unsupported a b =
     TypeError (quoted ''>'' @ '' not supported between instances of ''
                @ quoted (scalar_type a) @ '' and '' @ quoted (scalar_type b))"

text \<open>Truthiness, as tested by \<^verbatim>\<open>if x\<close> and \<^verbatim>\<open>if not x\<close>.\<close>

fun scalar_truthy :: "scalar \<Rightarrow> bool" where
  "scalar_truthy SNone = False"
| "scalar_truthy (SInt n) = (n \<noteq> 0)"
| "scalar_truthy (SStr s) = (s \<noteq> [])"

text \<open>\<^verbatim>\<open>d.get(k, default)\<close>, \<^verbatim>\<open>d.get(k)\<close> and \<^verbatim>\<open>d[k]\<close>.\<close>

definition dict_get_default :: "(string \<times> 'v) list \<Rightarrow> string \<Rightarrow> 'v \<Rightarrow> 'v" where
  "dict_get_default d k dflt = (case map_of d k of None \<Rightarrow> dflt | Some v \<Rightarrow> v)"

definition dict_get :: "pydict \<Rightarrow> string \<Rightarrow> scalar" where
  "dict_get d k = dict_get_default d k SNone"

definition info_get :: "info_dict \<Rightarrow> string \<Rightarrow> pyval" where
  "info_get d k = dict_get_default d k (Scalar SNone)"

definition dict_index :: "(string \<times> 'v) list \<Rightarrow> string \<Rightarrow> exn + 'v" where
  "dict_index d k = (case map_of d k of None \<Rightarrow> Inl (KeyError k) | Some v \<Rightarrow> Inr v)"

text \<open>\<^verbatim>\<open>d.pop(k, None)\<close>: the dictionary without the key.\<close>

definition dict_pop :: "(string \<times> 'v) list \<Rightarrow> string \<Rightarrow> (string \<times> 'v) list" where
  "dict_pop d k = filter (\<lambda>kv. fst kv \<noteq> k) d"

section \<open>Comparison and \<^verbatim>\<open>max\<close> with a key\<close>

text \<open>
  \<^verbatim>\<open>a > b\<close> is defined between two numbers and between two strings (by code point,
  lexicographically); every other pairing, in particular any pairing with \<^verbatim>\<open>None\<close>,
  raises \<^verbatim>\<open>TypeError\<close>.
\<close>

fun str_gt :: "string \<Rightarrow> string \<Rightarrow> bool" where
  "str_gt [] bs = False"
| "str_gt (a # as) [] = True"
| "str_gt (a # as) (b # bs) =
     (if a = b then str_gt as bs else (of_char b :: nat) < of_char a)"

fun scalar_gt :: "scalar \<Rightarrow> scalar \<Rightarrow> exn + bool" where
  "scalar_gt (SInt a) (SInt b) = Inr (b < a)"
| "scalar_gt (SStr a) (SStr b) = Inr (str_gt a b)"
| "scalar_gt a b = Inl (gt_unsupported a b)"

text \<open>
  Tuples of length two compare by the first position at which the components are not
  equal (\<^verbatim>\<open>==\<close> never raises on these values); only the components at that position are
  ordered with \<^verbatim>\<open>>\<close>. Equal tuples are not greater.
\<close>

fun tuple_gt :: "scalar \<times> scalar \<Rightarrow> scalar \<times> scalar \<Rightarrow> exn + bool" where
  "tuple_gt (a1, b1) (a2, b2) =
     (if a1 = a2 then (if b1 = b2 then Inr False else scalar_gt b1 b2)
      else scalar_gt a1 a2)"

text \<open>
  \<^verbatim>\<open>max(xs, key=f)\<close> keeps a running maximum, starting with the first item, and replaces
  it by a later item only when that item's key is strictly greater; an exception of the
  comparison ends the loop.
\<close>

fun py_max_loop :: "('k \<Rightarrow> 'k \<Rightarrow> exn + bool) \<Rightarrow> ('a \<Rightarrow> 'k) \<Rightarrow> 'a \<Rightarrow> 'a list \<Rightarrow> exn + 'a" where
  "py_max_loop gt key m [] = Inr m"
| "py_max_loop gt key m (x # xs) =
     (case gt (key x) (key m) of
        Inl e \<Rightarrow> Inl e
      | Inr b \<Rightarrow> py_max_loop gt key (if b then x else m) xs)"

definition py_max :: "('k \<Rightarrow> 'k \<Rightarrow> exn + bool) \<Rightarrow> ('a \<Rightarrow> 'k) \<Rightarrow> 'a list \<Rightarrow> exn + 'a" where
  "py_max gt key xs =
     (case xs of
        [] \<Rightarrow> Inl (ValueError ''max() arg is an empty sequence'')
      | x # rest \<Rightarrow> py_max_loop gt key x rest)"

section \<open>The format selector of \<^verbatim>\<open>extract_info\<close>\<close>

text \<open>
  \<^verbatim>\<open>for f in info.get("formats", [])\<close> with \<^verbatim>\<open>f.get(...)\<close> in the body: a list of
  dictionaries is traversed; \<^verbatim>\<open>None\<close> and numbers are not iterable; the items of a
  non-empty string or list of strings have no \<^verbatim>\<open>get\<close>.
\<close>

definition formats_of :: "info_dict \<Rightarrow> exn + pydict list" where
  "formats_of info =
     (case dict_get_default info ''formats'' (DictList []) of
        DictList fs \<Rightarrow> Inr fs
      | StrList ss \<Rightarrow> if ss = [] then Inr [] else Inl (no_attribute ''str'' ''get'')
      | Scalar v \<Rightarrow>
          (case v of
             SStr s \<Rightarrow> if s = [] then Inr [] else Inl (no_attribute ''str'' ''get'')
           | _ \<Rightarrow> Inl (not_iterable (scalar_type v))))"

definition is_audio_only :: "pydict \<Rightarrow> bool" where
  "is_audio_only f \<longleftrightarrow>
     dict_get f ''acodec'' \<noteq> SStr ''none'' \<and> dict_get f ''vcodec'' = SStr ''none''"

definition audio_entry :: "pydict \<Rightarrow> pydict" where
  "audio_entry f =
     [(''format_id'', dict_get f ''format_id''),
      (''ext'', dict_get f ''ext''),
      (''filesize'', dict_get f ''filesize''),
      (''asr'', dict_get f ''asr''),
      (''url'', dict_get f ''url'')]"

fun audio_formats :: "pydict list \<Rightarrow> pydict list" where
  "audio_formats [] = []"
| "audio_formats (f # fs) =
     (if is_audio_only f then audio_entry f # audio_formats fs else audio_formats fs)"

definition is_muxed :: "pydict \<Rightarrow> bool" where
  "is_muxed f \<longleftrightarrow>
     dict_get f ''vcodec'' \<noteq> SStr ''none'' \<and> dict_get f ''acodec'' \<noteq> SStr ''none''"

definition video_entry :: "pydict \<Rightarrow> pydict" where
  "video_entry f =
     [(''format_id'', dict_get f ''format_id''),
      (''ext'', dict_get f ''ext''),
      (''width'', dict_get f ''width''),
      (''height'', dict_get f ''height''),
      (''filesize'', dict_get f ''filesize''),
      (''fps'', dict_get f ''fps''),
      (''url'', dict_get f ''url'')]"

fun video_formats :: "pydict list \<Rightarrow> pydict list" where
  "video_formats [] = []"
| "video_formats (f # fs) =
     (if is_muxed f then video_entry f # video_formats fs else video_formats fs)"

text \<open>The key functions of the two \<^verbatim>\<open>max\<close> calls.\<close>

definition audio_key :: "pydict \<Rightarrow> scalar" where
  "audio_key x = dict_get_default x ''asr'' (SInt 0)"

definition video_key :: "pydict \<Rightarrow> scalar \<times> scalar" where
  "video_key x = (dict_get_default x ''height'' (SInt 0), dict_get_default x ''fps'' (SInt 0))"

definition best_audio :: "pydict list \<Rightarrow> exn + pydict" where
  "best_audio formats = py_max scalar_gt audio_key formats"

definition best_video :: "pydict list \<Rightarrow> exn + pydict" where
  "best_video formats = py_max tuple_gt video_key formats"

text \<open>
  \<^verbatim>\<open>selected_url\<close> after the \<^verbatim>\<open>if formats:\<close> block: \<^verbatim>\<open>None\<close> when no candidate was
  kept, otherwise \<^verbatim>\<open>best_format["url"]\<close>.
\<close>

definition selected_url :: "(pydict list \<Rightarrow> exn + pydict) \<Rightarrow> pydict list \<Rightarrow> exn + scalar" where
  "selected_url best formats =
     (if formats \<noteq> [] then
        (case best formats of Inl e \<Rightarrow> Inl e | Inr best_format \<Rightarrow> dict_index best_format ''url'')
      else Inr SNone)"

text \<open>
  The filtered candidates and the selected URL for a media type; any type other than
  \<^verbatim>\<open>"audio"\<close> and \<^verbatim>\<open>"video"\<close> raises before the formats are looked at.
\<close>

definition select_formats :: "info_dict \<Rightarrow> string \<Rightarrow> exn + (pydict list \<times> scalar)" where
  "select_formats info media_type =
     (if media_type = ''audio'' then
        (case formats_of info of
           Inl e \<Rightarrow> Inl e
         | Inr fs \<Rightarrow>
             (case selected_url best_audio (audio_formats fs) of
                Inl e \<Rightarrow> Inl e
              | Inr u \<Rightarrow> Inr (audio_formats fs, u)))
      else if media_type = ''video'' then
        (case formats_of info of
           Inl e \<Rightarrow> Inl e
         | Inr fs \<Rightarrow>
             (case selected_url best_video (video_formats fs) of
                Inl e \<Rightarrow> Inl e
              | Inr u \<Rightarrow> Inr (video_formats fs, u)))
      else Inl (ValueError ''Invalid media type''))"

definition result_dict :: "info_dict \<Rightarrow> string \<Rightarrow> scalar \<Rightarrow> pydict list \<Rightarrow> info_dict" where
  "result_dict info media_type url formats =
     [(''title'', info_get info ''title''),
      (''id'', info_get info ''id''),
      (''duration'', info_get info ''duration''),
      (''duration_string'', info_get info ''duration_string''),
      (''uploader'', info_get info ''uploader''),
      (''channel_url'', info_get info ''channel_url''),
      (''thumbnail'', info_get info ''thumbnail''),
      (''description'', info_get info ''description''),
      (''tags'', dict_get_default info ''tags'' (StrList [])),
      (''categories'', dict_get_default info ''categories'' (StrList [])),
      (''view_count'', info_get info ''view_count''),
      (''like_count'', info_get info ''like_count''),
      (''webpage_url'', info_get info ''webpage_url''),
      (''upload_date'', info_get info ''upload_date''),
      (''media_type'', Scalar (SStr media_type)),
      (''stream_url'', Scalar url),
      (''available_formats'', DictList formats)]"

text \<open>
  The extraction library is a parameter: called on a URL it raises, or returns \<^verbatim>\<open>None\<close>
  or an info dictionary. \<^verbatim>\<open>extract_info\<close> logs and re-raises every exception, so its
  outcome is the exception or the result dictionary.
\<close>

type_synonym adapter = "string \<Rightarrow> exn + info_dict option"

definition no_suitable :: "string \<Rightarrow> exn" where
  "no_suitable media_type = ValueError (''No suitable '' @ media_type @ '' format found'')"

definition extract_info :: "adapter \<Rightarrow> string \<Rightarrow> string \<Rightarrow> exn + info_dict" where
  "extract_info ydl youtube_url media_type =
     (case ydl youtube_url of
        Inl e \<Rightarrow> Inl e
      | Inr None \<Rightarrow> Inl (ValueError ''Could not extract video information'')
      | Inr (Some info) \<Rightarrow>
          if info = [] then Inl (ValueError ''Could not extract video information'')
          else
            (case select_formats info media_type of
               Inl e \<Rightarrow> Inl e
             | Inr (formats, url) \<Rightarrow>
                 if \<not> scalar_truthy url then Inl (no_suitable media_type)
                 else Inr (result_dict info media_type url formats)))"

section \<open>The request handlers\<close>

text \<open>
  The parsed JSON body of a request, with Python's truthiness and type names. A response
  is a status code and a JSON object; the handlers are modelled together with the list of
  \<^verbatim>\<open>extract_info\<close> invocations (URL and media type) they make.
\<close>

datatype json =
    JNull
  | JBool bool
  | JInt int
  | JStr string
  | JList "json list"
  | JObj "(string \<times> json) list"

fun json_truthy :: "json \<Rightarrow> bool" where
  "json_truthy JNull = False"
| "json_truthy (JBool b) = b"
| "json_truthy (JInt n) = (n \<noteq> 0)"
| "json_truthy (JStr s) = (s \<noteq> [])"
| "json_truthy (JList xs) = (xs \<noteq> [])"
| "json_truthy (JObj d) = (d \<noteq> [])"

fun json_type :: "json \<Rightarrow> string" where
  "json_type JNull = ''NoneType''"
| "json_type (JBool b) = ''bool''"
| "json_type (JInt n) = ''int''"
| "json_type (JStr s) = ''str''"
| "json_type (JList xs) = ''list''"
| "json_type (JObj d) = ''dict''"

text \<open>\<^verbatim>\<open>str.lower\<close> on ASCII letters and \<^verbatim>\<open>str.startswith\<close>.\<close>

definition lower_char :: "char \<Rightarrow> char" where
  "lower_char c =
     (case map_of (zip ''ABCDEFGHIJKLMNOPQRSTUVWXYZ'' ''abcdefghijklmnopqrstuvwxyz'') c of
        None \<Rightarrow> c
      | Some l \<Rightarrow> l)"

definition py_lower :: "string \<Rightarrow> string" where
  "py_lower s = map lower_char s"

definition startswith :: "string \<Rightarrow> string \<Rightarrow> bool" where
  "startswith s p \<longleftrightarrow> take (length p) s = p"

record response =
  status :: nat
  body :: info_dict

type_synonym call = "string \<times> string"

record download_request =
  api_key_header :: "string option"
  json_body :: "exn + json"

record info_request =
  info_key_header :: "string option"
  url_arg :: "string option"

definition error_body :: "string \<Rightarrow> info_dict" where
  "error_body m = [(''error'', Scalar (SStr m))]"

definition error_details_body :: "string \<Rightarrow> string \<Rightarrow> info_dict" where
  "error_details_body m d = [(''error'', Scalar (SStr m)), (''details'', Scalar (SStr d))]"

definition unauthorized :: response where
  "unauthorized = \<lparr>status = 401, body = error_body ''Unauthorized. Invalid API Key.''\<rparr>"

text \<open>\<^verbatim>\<open>data.get("type", "audio").lower()\<close>: only a string has \<^verbatim>\<open>lower\<close>.\<close>

definition media_type_of :: "(string \<times> json) list \<Rightarrow> exn + string" where
  "media_type_of d =
     (case dict_get_default d ''type'' (JStr ''audio'') of
        JStr t \<Rightarrow> Inr (py_lower t)
      | v \<Rightarrow> Inl (no_attribute (json_type v) ''lower''))"

text \<open>
  The \<^verbatim>\<open>try\<close> block of \<^verbatim>\<open>download\<close>: it returns a response or raises, and calls
  \<^verbatim>\<open>extract_info\<close> at most once, after every check has passed.
\<close>

definition download_try :: "adapter \<Rightarrow> exn + json \<Rightarrow> (exn + response) \<times> call list" where
  "download_try ydl parsed =
     (case parsed of
        Inl e \<Rightarrow> (Inl e, [])
      | Inr data \<Rightarrow>
          if \<not> json_truthy data then
            (Inr \<lparr>status = 400, body = error_body ''Missing request body''\<rparr>, [])
          else
            (case data of
               JObj d \<Rightarrow>
                 (let url = dict_get_default d ''url'' JNull in
                  case media_type_of d of
                    Inl e \<Rightarrow> (Inl e, [])
                  | Inr media_type \<Rightarrow>
                      if \<not> json_truthy url then
                        (Inr \<lparr>status = 400,
                              body = error_body (''Missing '' @ quoted ''url'' @ '' in request'')\<rparr>, [])
                      else if media_type \<noteq> ''audio'' \<and> media_type \<noteq> ''video'' then
                        (Inr \<lparr>status = 400,
                              body = error_body (''Invalid '' @ quoted ''type'' @ ''. Use ''
                                       @ quoted ''audio'' @ '' or '' @ quoted ''video'' @ ''.'')\<rparr>, [])
                      else
                        (case url of
                           JStr u \<Rightarrow>
                             if \<not> (startswith u ''http://'' \<or> startswith u ''https://'') then
                               (Inr \<lparr>status = 400, body = error_body ''Invalid URL format''\<rparr>, [])
                             else
                               (case extract_info ydl u media_type of
                                  Inl e \<Rightarrow> (Inl e, [(u, media_type)])
                                | Inr result \<Rightarrow>
                                    (Inr \<lparr>status = 200, body = result\<rparr>, [(u, media_type)]))
                         | v \<Rightarrow> (Inl (no_attribute (json_type v) ''startswith''), [])))
             | v \<Rightarrow> (Inl (no_attribute (json_type v) ''get''), [])))"

text \<open>
  \<^verbatim>\<open>download\<close>: the API-key check, then the \<^verbatim>\<open>try\<close> block with its two handlers
  (\<^verbatim>\<open>except ValueError\<close>, then \<^verbatim>\<open>except Exception\<close>). This is the body of the view
  function; its decorators (the route and the rate limit) are modelled by
  \<open>api_download\<close> in the next section.
\<close>

definition download :: "string \<Rightarrow> adapter \<Rightarrow> download_request \<Rightarrow> response \<times> call list" where
  "download api_key ydl req =
     (if api_key_header req \<noteq> Some api_key then (unauthorized, [])
      else
        (case download_try ydl (json_body req) of
           (Inr resp, calls) \<Rightarrow> (resp, calls)
         | (Inl (ValueError m), calls) \<Rightarrow> (\<lparr>status = 400, body = error_body m\<rparr>, calls)
         | (Inl e, calls) \<Rightarrow>
             (\<lparr>status = 500,
               body = error_details_body ''An unexpected error occurred'' (exn_str e)\<rparr>, calls)))"

text \<open>
  \<^verbatim>\<open>get_info\<close>: the API-key check, the presence of the \<^verbatim>\<open>url\<close> query parameter, then
  \<^verbatim>\<open>extract_info(url, "video")\<close> with \<^verbatim>\<open>stream_url\<close> popped from the result; every
  exception is answered with its text. Again this is the body of the view function; the
  decorated endpoint is \<open>api_info\<close>.
\<close>

definition get_info :: "string \<Rightarrow> adapter \<Rightarrow> info_request \<Rightarrow> response \<times> call list" where
  "get_info api_key ydl req =
     (if info_key_header req \<noteq> Some api_key then (unauthorized, [])
      else
        (case url_arg req of
           None \<Rightarrow> (\<lparr>status = 400,
                      body = error_body (''Missing '' @ quoted ''url'' @ '' parameter'')\<rparr>, [])
         | Some url \<Rightarrow>
             if url = [] then
               (\<lparr>status = 400,
                 body = error_body (''Missing '' @ quoted ''url'' @ '' parameter'')\<rparr>, [])
             else
               (case extract_info ydl url ''video'' of
                  Inr result \<Rightarrow>
                    (\<lparr>status = 200, body = dict_pop result ''stream_url''\<rparr>, [(url, ''video'')])
                | Inl e \<Rightarrow>
                    (\<lparr>status = 500, body = error_body (exn_str e)\<rparr>, [(url, ''video'')]))))"

section \<open>Rate limiting\<close>

text \<open>
  Both view functions are registered behind the rate limiter:
  \<^verbatim>\<open>@limiter.limit("10 per minute")\<close> decorates \<^verbatim>\<open>download\<close> and
  \<^verbatim>\<open>@limiter.limit("20 per minute")\<close> decorates \<^verbatim>\<open>get_info\<close>. The limiter is set up with
  the remote address as its key and with the default limits \<^verbatim>\<open>"100 per day"\<close> and
  \<^verbatim>\<open>"10 per minute"\<close>. It belongs to an external library that counts the requests of an
  address in real time, so its verdict on the current request is a parameter of the
  model: \<open>limiter l\<close> holds when the library turns the request away at a route decorated
  with the limit \<open>l\<close>. In that case the view function is not called, and the answer is
  the framework's page for status 429 (Too Many Requests), which is HTML and not a JSON
  object; otherwise the response of the view function is served.
\<close>

type_synonym limiter = "string \<Rightarrow> bool"

datatype 'a limited = TooManyRequests | Served 'a

definition limit :: "limiter \<Rightarrow> string \<Rightarrow> 'a \<Rightarrow> 'a limited" where
  "limit limiter limit_value view =
     (if limiter limit_value then TooManyRequests else Served view)"

definition api_download ::
  "limiter \<Rightarrow> string \<Rightarrow> adapter \<Rightarrow> download_request \<Rightarrow> (response \<times> call list) limited" where
  "api_download limiter api_key ydl req =
     limit limiter ''10 per minute'' (download api_key ydl req)"

definition api_info ::
  "limiter \<Rightarrow> string \<Rightarrow> adapter \<Rightarrow> info_request \<Rightarrow> (response \<times> call list) limited" where
  "api_info limiter api_key ydl req =
     limit limiter ''20 per minute'' (get_info api_key ydl req)"

text \<open>
  What a client and the extraction library observe of an endpoint: the status code, the
  JSON object of the response (none for the page of the limiter), and the invocations of
  \<^verbatim>\<open>extract_info\<close>.
\<close>

fun http_status :: "(response \<times> call list) limited \<Rightarrow> nat" where
  "http_status TooManyRequests = 429"
| "http_status (Served (resp, calls)) = status resp"

fun json_reply :: "(response \<times> call list) limited \<Rightarrow> info_dict option" where
  "json_reply TooManyRequests = None"
| "json_reply (Served (resp, calls)) = Some (body resp)"

fun extractions :: "(response \<times> call list) limited \<Rightarrow> call list" where
  "extractions TooManyRequests = []"
| "extractions (Served (resp, calls)) = calls"

section \<open>Sample requests and adapters\<close>

text \<open>Concrete inputs at which the theorems below are instantiated.\<close>

definition failing_adapter :: adapter where
  "failing_adapter u = Inl (OtherException ''unreachable host'')"

definition audio_44100 :: pydict where
  "audio_44100 = [(''format_id'', SStr ''140''), (''ext'', SStr ''m4a''), (''acodec'', SStr ''mp4a.40.2''),
     (''vcodec'', SStr ''none''), (''asr'', SInt 44100), (''url'', SStr ''https://cdn.example/a44'')]"
definition audio_48000 :: pydict where
  "audio_48000 = [(''format_id'', SStr ''251''), (''ext'', SStr ''webm''), (''acodec'', SStr ''opus''),
     (''vcodec'', SStr ''none''), (''asr'', SInt 48000), (''url'', SStr ''https://cdn.example/a48'')]"
definition muxed_720 :: pydict where
  "muxed_720 = [(''format_id'', SStr ''22''), (''ext'', SStr ''mp4''), (''acodec'', SStr ''mp4a.40.2''),
     (''vcodec'', SStr ''avc1.64001F''), (''width'', SInt 1280), (''height'', SInt 720), (''fps'', SInt 30),
     (''url'', SStr ''https://cdn.example/v720'')]"
definition muxed_1080 :: pydict where
  "muxed_1080 = [(''format_id'', SStr ''37''), (''ext'', SStr ''mp4''), (''acodec'', SStr ''mp4a.40.2''),
     (''vcodec'', SStr ''avc1.640028''), (''width'', SInt 1920), (''height'', SInt 1080), (''fps'', SInt 24),
     (''url'', SStr ''https://cdn.example/v1080'')]"
definition sample_info :: info_dict where
  "sample_info = [(''title'', Scalar (SStr ''clip'')), (''id'', Scalar (SStr ''abc'')),
     (''formats'', DictList [audio_44100, audio_48000, muxed_720, muxed_1080])]"
definition sample_adapter :: adapter where
  "sample_adapter u = Inr (Some sample_info)"


text \<open>
  The list \<^verbatim>\<open>formats\<close> that \<^verbatim>\<open>extract_info\<close> builds for a media type, and the
  conditions under which \<^verbatim>\<open>download\<close> reaches \<^verbatim>\<open>extract_info(url, media_type)\<close>: the key
  matches, the body is a JSON object with a string \<^verbatim>\<open>url\<close> of scheme http(s), and the type
  (default \<^verbatim>\<open>"audio"\<close>) lowercases to \<^verbatim>\<open>"audio"\<close> or \<^verbatim>\<open>"video"\<close>.
\<close>

definition filtered_formats :: "string \<Rightarrow> pydict list \<Rightarrow> pydict list" where
  "filtered_formats media_type fs =
     (if media_type = ''audio'' then audio_formats fs else video_formats fs)"

definition passes_validation :: "string \<Rightarrow> download_request \<Rightarrow> string \<Rightarrow> string \<Rightarrow> bool" where
  "passes_validation api_key req u media_type \<longleftrightarrow>
     api_key_header req = Some api_key
     \<and> (case json_body req of
          Inr (JObj d) \<Rightarrow>
            dict_get_default d ''url'' JNull = JStr u \<and> media_type_of d = Inr media_type
        | _ \<Rightarrow> False)
     \<and> (media_type = ''audio'' \<or> media_type = ''video'')
     \<and> (startswith u ''http://'' \<or> startswith u ''https://'')"

definition adaptive_only_info :: info_dict where
  "adaptive_only_info = [(''title'', Scalar (SStr ''clip'')),
     (''formats'', DictList [[(''format_id'', SStr ''137''), (''acodec'', SStr ''none''),
        (''vcodec'', SStr ''avc1.640028''), (''height'', SInt 1080), (''fps'', SInt 30),
        (''url'', SStr ''https://cdn.example/v1080only'')]])]"

definition adaptive_only_adapter :: adapter where
  "adaptive_only_adapter u = Inr (Some adaptive_only_info)"

definition audio_request :: download_request where
  "audio_request = \<lparr>api_key_header = Some ''mera-secret-key'',
     json_body = Inr (JObj [(''url'', JStr ''https://example.org/watch'')])\<rparr>"


definition info_request_ok :: info_request where
  "info_request_ok = \<lparr>info_key_header = Some ''mera-secret-key'',
     url_arg = Some ''https://example.org/watch''\<rparr>"

text \<open>
  The value that \<^verbatim>\<open>download\<close> reads as \<^verbatim>\<open>url\<close> (\<^verbatim>\<open>None\<close> when the body is not a JSON
  object), the test \<^verbatim>\<open>url.startswith(('http://', 'https://'))\<close> on it, and the bodies on
  which nothing in the \<^verbatim>\<open>try\<close> block raises before the URL is validated: bodies that
  \<^verbatim>\<open>get_json\<close> parsed (a body for which it raises, such as one of zero bytes, is not among
  them) into a falsy value (\<^verbatim>\<open>{}\<close>, \<^verbatim>\<open>null\<close>, \<^verbatim>\<open>[]\<close>, \<^verbatim>\<open>0\<close>, \<^verbatim>\<open>""\<close>, \<^verbatim>\<open>false\<close>) or into an
  object whose \<^verbatim>\<open>type\<close> is absent or a string and whose \<^verbatim>\<open>url\<close> is falsy or a string.
\<close>

definition request_url :: "download_request \<Rightarrow> json" where
  "request_url req =
     (case json_body req of Inr (JObj d) \<Rightarrow> dict_get_default d ''url'' JNull | _ \<Rightarrow> JNull)"


definition http_url :: "json \<Rightarrow> bool" where
  "http_url v \<longleftrightarrow>
     (case v of JStr u \<Rightarrow> startswith u ''http://'' \<or> startswith u ''https://'' | _ \<Rightarrow> False)"

definition well_typed_body :: "download_request \<Rightarrow> bool" where
  "well_typed_body req \<longleftrightarrow>
     (case json_body req of
        Inl e \<Rightarrow> False
      | Inr data \<Rightarrow>
          (if json_truthy data then
             (case data of
                JObj d \<Rightarrow>
                  (case map_of d ''type'' of None \<Rightarrow> True | Some (JStr t) \<Rightarrow> True | Some v \<Rightarrow> False)
                  \<and> (case dict_get_default d ''url'' JNull of JStr u \<Rightarrow> True | v \<Rightarrow> \<not> json_truthy v)
              | _ \<Rightarrow> False)
           else True))"

definition ftp_download_request :: download_request where
  "ftp_download_request = \<lparr>api_key_header = Some ''mera-secret-key'',
     json_body = Inr (JObj [(''url'', JStr ''ftp://example.org/v''), (''type'', JStr ''video'')])\<rparr>"

definition unauthenticated_ftp_request :: download_request where
  "unauthenticated_ftp_request = \<lparr>api_key_header = None,
     json_body = Inr (JObj [(''url'', JStr ''ftp://example.org/v''), (''type'', JStr ''video'')])\<rparr>"

definition ftp_info_request :: info_request where
  "ftp_info_request = \<lparr>info_key_header = Some ''mera-secret-key'', url_arg = Some ''ftp://example.org/v''\<rparr>"

definition upper_video_request :: download_request where
  "upper_video_request = \<lparr>api_key_header = Some ''mera-secret-key'',
     json_body = Inr (JObj [(''url'', JStr ''https://example.org/watch''), (''type'', JStr ''VIDEO'')])\<rparr>"

definition flac_request :: download_request where
  "flac_request = \<lparr>api_key_header = Some ''mera-secret-key'',
     json_body = Inr (JObj [(''url'', JStr ''https://example.org/watch''), (''type'', JStr ''flac'')])\<rparr>"

definition unauthenticated_flac_request :: download_request where
  "unauthenticated_flac_request = \<lparr>api_key_header = None,
     json_body = Inr (JObj [(''url'', JStr ''https://example.org/watch''), (''type'', JStr ''flac'')])\<rparr>"

definition value_error_adapter :: adapter where
  "value_error_adapter u = Inl (ValueError ''invalid literal for int()'')"

text \<open>
  Verdicts of the limiter, requests without a valid key, and bodies that make an attribute
  access of \<^verbatim>\<open>download\<close> raise: a \<^verbatim>\<open>url\<close> or a \<^verbatim>\<open>type\<close> that is a number, a body that is a
  list, and a body for which \<^verbatim>\<open>get_json\<close> raises.
\<close>

definition within_limit :: limiter where
  "within_limit l = False"

definition over_limit :: limiter where
  "over_limit l = True"

definition keyless_request :: download_request where
  "keyless_request = \<lparr>api_key_header = None, json_body = Inr (JList [])\<rparr>"

definition wrong_key_info_request :: info_request where
  "wrong_key_info_request = \<lparr>info_key_header = Some ''guess'', url_arg = Some ''https://example.org/v''\<rparr>"

definition numeric_url_request :: download_request where
  "numeric_url_request = \<lparr>api_key_header = Some ''mera-secret-key'',
     json_body = Inr (JObj [(''url'', JInt 5)])\<rparr>"

definition numeric_type_ftp_request :: download_request where
  "numeric_type_ftp_request = \<lparr>api_key_header = Some ''mera-secret-key'',
     json_body = Inr (JObj [(''url'', JStr ''ftp://example.org/v''), (''type'', JInt 5)])\<rparr>"

definition numeric_type_request :: download_request where
  "numeric_type_request = \<lparr>api_key_header = Some ''mera-secret-key'',
     json_body = Inr (JObj [(''url'', JStr ''https://example.org/watch''), (''type'', JInt 5)])\<rparr>"

definition list_body_request :: download_request where
  "list_body_request = \<lparr>api_key_header = Some ''mera-secret-key'',
     json_body = Inr (JList [JStr ''ftp://example.org/v''])\<rparr>"

definition unparsed_body_request :: download_request where
  "unparsed_body_request = \<lparr>api_key_header = Some ''mera-secret-key'',
     json_body = Inl (OtherException ''400 Bad Request'')\<rparr>"

definition video_request :: download_request where
  "video_request = \<lparr>api_key_header = Some ''mera-secret-key'',
     json_body = Inr (JObj [(''url'', JStr ''https://example.org/watch''), (''type'', JStr ''video'')])\<rparr>"

text \<open>
  Format lists with a missing quality value: an audio-only format without \<^verbatim>\<open>asr\<close>, a
  muxed format without \<^verbatim>\<open>height\<close>, and a muxed format without \<^verbatim>\<open>fps\<close>.
\<close>

definition audio_no_asr :: pydict where
  "audio_no_asr = [(''format_id'', SStr ''139''), (''ext'', SStr ''m4a''), (''acodec'', SStr ''mp4a.40.5''),
     (''vcodec'', SStr ''none''), (''url'', SStr ''https://cdn.example/a0'')]"

definition null_asr_info :: info_dict where
  "null_asr_info = [(''title'', Scalar (SStr ''clip'')), (''formats'', DictList [audio_48000, audio_no_asr])]"

definition null_asr_adapter :: adapter where
  "null_asr_adapter u = Inr (Some null_asr_info)"

definition muxed_no_height :: pydict where
  "muxed_no_height = [(''format_id'', SStr ''18''), (''ext'', SStr ''mp4''), (''acodec'', SStr ''mp4a.40.2''),
     (''vcodec'', SStr ''avc1.42001E''), (''fps'', SInt 30), (''url'', SStr ''https://cdn.example/v0'')]"

definition null_height_info :: info_dict where
  "null_height_info = [(''title'', Scalar (SStr ''clip'')), (''formats'', DictList [muxed_720, muxed_no_height])]"

definition null_height_adapter :: adapter where
  "null_height_adapter u = Inr (Some null_height_info)"

definition muxed_720_no_fps :: pydict where
  "muxed_720_no_fps = [(''format_id'', SStr ''22''), (''ext'', SStr ''mp4''), (''acodec'', SStr ''mp4a.40.2''),
     (''vcodec'', SStr ''avc1.64001F''), (''width'', SInt 1280), (''height'', SInt 720),
     (''url'', SStr ''https://cdn.example/v720'')]"

definition null_fps_info :: info_dict where
  "null_fps_info = [(''title'', Scalar (SStr ''clip'')), (''formats'', DictList [muxed_720_no_fps, muxed_1080])]"

definition null_fps_adapter :: adapter where
  "null_fps_adapter u = Inr (Some null_fps_info)"

section \<open>Evaluation and structure lemmas\<close>

lemmas sample_defs = audio_44100_def audio_48000_def muxed_720_def muxed_1080_def sample_info_def sample_adapter_def
lemmas model_defs = extract_info_def select_formats_def formats_of_def selected_url_def best_audio_def best_video_def
  py_max_def audio_key_def video_key_def is_audio_only_def is_muxed_def audio_entry_def video_entry_def
  dict_get_def dict_get_default_def dict_index_def info_get_def result_dict_def no_suitable_def


lemma extract_info_Inr:
  assumes "extract_info ydl u mt = Inr res"
  shows "\<exists>info fmts s. ydl u = Inr (Some info) \<and> info \<noteq> [] \<and> select_formats info mt = Inr (fmts, s)
           \<and> scalar_truthy s \<and> res = result_dict info mt s fmts"
  using assms
  by (auto simp: extract_info_def split: sum.splits option.splits if_splits prod.splits)

lemma result_dict_stream_url: "map_of (result_dict info mt s fmts) ''stream_url'' = Some (Scalar s)"
  by (simp add: result_dict_def)

lemma passes_validationD:
  assumes "passes_validation api_key req u mt"
  shows "download api_key ydl req =
     (case extract_info ydl u mt of
        Inr res \<Rightarrow> (\<lparr>status = 200, body = res\<rparr>, [(u, mt)])
      | Inl e \<Rightarrow> (case e of ValueError m \<Rightarrow> (\<lparr>status = 400, body = error_body m\<rparr>, [(u, mt)])
                 | _ \<Rightarrow> (\<lparr>status = 500, body = error_details_body ''An unexpected error occurred'' (exn_str e)\<rparr>, [(u, mt)])))"
proof -
  from assms obtain d where b: "json_body req = Inr (JObj d)"
    and url: "dict_get_default d ''url'' JNull = JStr u" and mt: "media_type_of d = Inr mt"
    by (auto simp: passes_validation_def split: sum.splits json.splits)
  from assms have key: "api_key_header req = Some api_key"
    and kind: "mt = ''audio'' \<or> mt = ''video''"
    and scheme: "startswith u ''http://'' \<or> startswith u ''https://''"
    by (auto simp: passes_validation_def)
  from url have d: "d \<noteq> []" by (auto simp: dict_get_default_def)
  from scheme have u: "u \<noteq> []" by (auto simp: startswith_def)
  show ?thesis
    using key b url mt kind scheme d u
    by (auto simp: download_def download_try_def split: sum.splits exn.splits)
qed

lemma select_formats_empty:
  assumes "formats_of info = Inr fs" "mt = ''audio'' \<or> mt = ''video''" "filtered_formats mt fs = []"
  shows "select_formats info mt = Inr ([], SNone)"
  using assms by (auto simp: select_formats_def filtered_formats_def selected_url_def)

lemma extract_info_no_suitable:
  assumes "ydl u = Inr (Some info)" "info \<noteq> []" "select_formats info mt = Inr (fmts, s)" "\<not> scalar_truthy s"
  shows "extract_info ydl u mt = Inl (no_suitable mt)"
  using assms by (simp add: extract_info_def)


lemma audio_request_valid:
  "passes_validation ''mera-secret-key'' audio_request ''https://example.org/watch'' ''audio''"
  by (simp add: passes_validation_def audio_request_def dict_get_default_def media_type_of_def
      py_lower_def lower_char_def startswith_def)


section \<open>The decorated endpoints\<close>

text \<open>
  An admitted request is answered by the view function; a request over the limit is
  answered by the limiter, without any extraction.
\<close>

lemma api_download_admitted:
  "\<not> limiter ''10 per minute'' \<Longrightarrow>
     api_download limiter api_key ydl req = Served (download api_key ydl req)"
  by (simp add: api_download_def limit_def)

lemma api_info_admitted:
  "\<not> limiter ''20 per minute'' \<Longrightarrow>
     api_info limiter api_key ydl req = Served (get_info api_key ydl req)"
  by (simp add: api_info_def limit_def)

lemma api_download_observed:
  "http_status (api_download limiter api_key ydl req) =
     (if limiter ''10 per minute'' then 429 else status (fst (download api_key ydl req)))"
  "json_reply (api_download limiter api_key ydl req) =
     (if limiter ''10 per minute'' then None else Some (body (fst (download api_key ydl req))))"
  "extractions (api_download limiter api_key ydl req) =
     (if limiter ''10 per minute'' then [] else snd (download api_key ydl req))"
  by (cases "download api_key ydl req"; simp add: api_download_def limit_def)+

lemma api_info_observed:
  "http_status (api_info limiter api_key ydl req) =
     (if limiter ''20 per minute'' then 429 else status (fst (get_info api_key ydl req)))"
  "json_reply (api_info limiter api_key ydl req) =
     (if limiter ''20 per minute'' then None else Some (body (fst (get_info api_key ydl req))))"
  "extractions (api_info limiter api_key ydl req) =
     (if limiter ''20 per minute'' then [] else snd (get_info api_key ydl req))"
  by (cases "get_info api_key ydl req"; simp add: api_info_def limit_def)+


section \<open>Authentication\<close>

text \<open>
  Claim C4, as amended. A request to \<^verbatim>\<open>POST /api/download\<close> or \<^verbatim>\<open>GET /api/info\<close> that the
  rate limiter admits and whose \<^verbatim>\<open>X-API-Key\<close> header is missing or differs from the
  configured key is answered with status 401 and the fixed body
  \<^verbatim>\<open>{"error": "Unauthorized. Invalid API Key."}\<close>, whatever the body, URL, type and the
  extraction library are; no extraction is attempted. (As stated, for every such request,
  the claim fails: the limiter comes before the key check, and a request over the limit is
  answered 429 whether or not it carries a key; see the counterexample.)
\<close>

theorem unauthorized_401:
  "(\<not> limiter ''10 per minute'' \<and> api_key_header dreq \<noteq> Some api_key \<longrightarrow>
      api_download limiter api_key ydl dreq =
        Served (\<lparr>status = 401, body = [(''error'', Scalar (SStr ''Unauthorized. Invalid API Key.''))]\<rparr>,
                [])
      \<and> http_status (api_download limiter api_key ydl dreq) = 401
      \<and> extractions (api_download limiter api_key ydl dreq) = [])
   \<and> (\<not> limiter' ''20 per minute'' \<and> info_key_header ireq \<noteq> Some api_key \<longrightarrow>
      api_info limiter' api_key ydl' ireq =
        Served (\<lparr>status = 401, body = [(''error'', Scalar (SStr ''Unauthorized. Invalid API Key.''))]\<rparr>,
                [])
      \<and> http_status (api_info limiter' api_key ydl' ireq) = 401
      \<and> extractions (api_info limiter' api_key ydl' ireq) = [])"
  by (simp add: api_download_def api_info_def limit_def download_def get_info_def
      unauthorized_def error_body_def)

theorem unauthorized_401_witness:
  "\<not> within_limit ''10 per minute'' \<and> \<not> within_limit ''20 per minute''
   \<and> api_key_header keyless_request \<noteq> Some ''mera-secret-key''
   \<and> info_key_header wrong_key_info_request \<noteq> Some ''mera-secret-key''
   \<and> api_download within_limit ''mera-secret-key'' failing_adapter keyless_request =
        Served (\<lparr>status = 401, body = [(''error'', Scalar (SStr ''Unauthorized. Invalid API Key.''))]\<rparr>,
                [])
   \<and> api_info within_limit ''mera-secret-key'' failing_adapter wrong_key_info_request =
        Served (\<lparr>status = 401, body = [(''error'', Scalar (SStr ''Unauthorized. Invalid API Key.''))]\<rparr>,
                [])"
proof -
  have h: "\<not> within_limit ''10 per minute''" "\<not> within_limit ''20 per minute''"
    "api_key_header keyless_request \<noteq> Some ''mera-secret-key''"
    "info_key_header wrong_key_info_request \<noteq> Some ''mera-secret-key''"
    by (simp_all add: within_limit_def keyless_request_def wrong_key_info_request_def)
  show ?thesis
    using unauthorized_401 [of within_limit keyless_request "''mera-secret-key''" failing_adapter
        within_limit wrong_key_info_request failing_adapter] h
    by simp
qed

theorem rate_limited_unauthorized_counterexample:
  "over_limit ''10 per minute'' \<and> over_limit ''20 per minute''
   \<and> api_key_header keyless_request \<noteq> Some ''mera-secret-key''
   \<and> info_key_header wrong_key_info_request \<noteq> Some ''mera-secret-key''
   \<and> api_download over_limit ''mera-secret-key'' failing_adapter keyless_request = TooManyRequests
   \<and> http_status (api_download over_limit ''mera-secret-key'' failing_adapter keyless_request) = 429
   \<and> json_reply (api_download over_limit ''mera-secret-key'' failing_adapter keyless_request) = None
   \<and> api_info over_limit ''mera-secret-key'' failing_adapter wrong_key_info_request = TooManyRequests
   \<and> http_status (api_info over_limit ''mera-secret-key'' failing_adapter wrong_key_info_request) = 429
   \<and> json_reply (api_info over_limit ''mera-secret-key'' failing_adapter wrong_key_info_request) = None"
  by (simp add: over_limit_def keyless_request_def wrong_key_info_request_def
      api_download_def api_info_def limit_def)


section \<open>The information endpoint\<close>

text \<open>
  Claim C5. Every extraction that \<^verbatim>\<open>GET /api/info\<close> performs is for the media type
  \<^verbatim>\<open>"video"\<close>; and whenever the endpoint answers 200, the body has no \<^verbatim>\<open>stream_url\<close>
  key, although the extraction did succeed and its result carried a selected, non-empty
  stream URL: the body is that result with the key removed.
\<close>

theorem info_video_no_stream_url:
  "(\<forall>c \<in> set (snd (get_info api_key ydl req)). snd c = ''video'')
   \<and> (status (fst (get_info api_key ydl req)) = 200 \<longrightarrow>
        ''stream_url'' \<notin> fst ` set (body (fst (get_info api_key ydl req)))
        \<and> (\<exists>u res s. url_arg req = Some u \<and> extract_info ydl u ''video'' = Inr res
              \<and> map_of res ''stream_url'' = Some (Scalar s) \<and> scalar_truthy s
              \<and> body (fst (get_info api_key ydl req)) = dict_pop res ''stream_url''))"
proof -
  have calls: "\<forall>c \<in> set (snd (get_info api_key ydl req)). snd c = ''video''"
    by (auto simp: get_info_def split: option.splits sum.splits)
  have ok: "''stream_url'' \<notin> fst ` set (body (fst (get_info api_key ydl req)))
        \<and> (\<exists>u res s. url_arg req = Some u \<and> extract_info ydl u ''video'' = Inr res
              \<and> map_of res ''stream_url'' = Some (Scalar s) \<and> scalar_truthy s
              \<and> body (fst (get_info api_key ydl req)) = dict_pop res ''stream_url'')"
    if s: "status (fst (get_info api_key ydl req)) = 200"
  proof -
    from s obtain u res where u: "url_arg req = Some u"
      and r: "extract_info ydl u ''video'' = Inr res"
      and b: "body (fst (get_info api_key ydl req)) = dict_pop res ''stream_url''"
      by (auto simp: get_info_def unauthorized_def split: option.splits sum.splits if_splits)
    from extract_info_Inr [OF r] obtain sel where
      "map_of res ''stream_url'' = Some (Scalar sel)" "scalar_truthy sel"
      by (auto simp: result_dict_stream_url)
    with u r b show ?thesis by (auto simp: dict_pop_def)
  qed
  from calls ok show ?thesis by blast
qed

theorem info_video_no_stream_url_witness:
  "status (fst (get_info ''mera-secret-key'' sample_adapter info_request_ok)) = 200
   \<and> snd (get_info ''mera-secret-key'' sample_adapter info_request_ok) =
        [(''https://example.org/watch'', ''video'')]
   \<and> ''stream_url'' \<notin> fst ` set (body (fst (get_info ''mera-secret-key'' sample_adapter info_request_ok)))
   \<and> (\<exists>res. extract_info sample_adapter ''https://example.org/watch'' ''video'' = Inr res
         \<and> map_of res ''stream_url'' = Some (Scalar (SStr ''https://cdn.example/v1080'')))"
proof -
  obtain res where r: "extract_info sample_adapter ''https://example.org/watch'' ''video'' = Inr res"
      and s: "map_of res ''stream_url'' = Some (Scalar (SStr ''https://cdn.example/v1080''))"
    by (simp add: sample_defs model_defs)
  have st: "status (fst (get_info ''mera-secret-key'' sample_adapter info_request_ok)) = 200"
    using r by (simp add: get_info_def info_request_ok_def)
  have c: "snd (get_info ''mera-secret-key'' sample_adapter info_request_ok) =
        [(''https://example.org/watch'', ''video'')]"
    using r by (simp add: get_info_def info_request_ok_def)
  show ?thesis
    using info_video_no_stream_url [of "''mera-secret-key''" sample_adapter info_request_ok] st c r s
    by auto
qed


section \<open>Outcome of extraction in the download endpoint\<close>

text \<open>
  Claim C6. For a \<^verbatim>\<open>POST /api/download\<close> request that passes authentication and
  validation: if the library returns metadata whose filtered candidate list is empty, or
  more generally if no truthy stream URL is selected, the answer is 400 with the message
  \<^verbatim>\<open>No suitable <type> format found\<close>; and whenever \<^verbatim>\<open>extract_info\<close> returns a result,
  the answer is 200 with that result, whose \<^verbatim>\<open>stream_url\<close> is the selected URL.
\<close>

theorem download_no_suitable_400_success_200:
  assumes "passes_validation api_key req u mt"
  shows "(\<forall>info fs. ydl u = Inr (Some info) \<and> info \<noteq> [] \<and> formats_of info = Inr fs
            \<and> filtered_formats mt fs = [] \<longrightarrow>
          download api_key ydl req =
            (\<lparr>status = 400, body = [(''error'', Scalar (SStr (''No suitable '' @ mt @ '' format found'')))]\<rparr>,
             [(u, mt)]))
       \<and> (\<forall>info fmts s. ydl u = Inr (Some info) \<and> info \<noteq> [] \<and> select_formats info mt = Inr (fmts, s)
            \<and> \<not> scalar_truthy s \<longrightarrow>
          download api_key ydl req =
            (\<lparr>status = 400, body = [(''error'', Scalar (SStr (''No suitable '' @ mt @ '' format found'')))]\<rparr>,
             [(u, mt)]))
       \<and> (\<forall>res. extract_info ydl u mt = Inr res \<longrightarrow>
          download api_key ydl req = (\<lparr>status = 200, body = res\<rparr>, [(u, mt)])
          \<and> (\<exists>info fmts s. ydl u = Inr (Some info) \<and> select_formats info mt = Inr (fmts, s)
                \<and> scalar_truthy s \<and> map_of res ''stream_url'' = Some (Scalar s)))"
proof -
  have kind: "mt = ''audio'' \<or> mt = ''video''"
    using assms by (simp add: passes_validation_def)
  have falsy: "download api_key ydl req =
       (\<lparr>status = 400, body = [(''error'', Scalar (SStr (''No suitable '' @ mt @ '' format found'')))]\<rparr>,
        [(u, mt)])"
    if "ydl u = Inr (Some info)" "info \<noteq> []" "select_formats info mt = Inr (fmts, s)" "\<not> scalar_truthy s"
    for info fmts s
    using extract_info_no_suitable [of ydl u info mt fmts s] that passes_validationD [OF assms, of ydl]
    by (simp add: no_suitable_def error_body_def)
  have empty: "download api_key ydl req =
       (\<lparr>status = 400, body = [(''error'', Scalar (SStr (''No suitable '' @ mt @ '' format found'')))]\<rparr>,
        [(u, mt)])"
    if "ydl u = Inr (Some info)" "info \<noteq> []" "formats_of info = Inr fs" "filtered_formats mt fs = []"
    for info fs
    using falsy [OF that(1,2) select_formats_empty [OF that(3) kind that(4)]] by simp
  have ok: "download api_key ydl req = (\<lparr>status = 200, body = res\<rparr>, [(u, mt)])
          \<and> (\<exists>info fmts s. ydl u = Inr (Some info) \<and> select_formats info mt = Inr (fmts, s)
                \<and> scalar_truthy s \<and> map_of res ''stream_url'' = Some (Scalar s))"
    if "extract_info ydl u mt = Inr res" for res
    using extract_info_Inr [OF that] passes_validationD [OF assms, of ydl] that
    by (auto simp: result_dict_stream_url)
  from falsy empty ok show ?thesis by blast
qed

theorem download_no_suitable_400_success_200_witness:
  "passes_validation ''mera-secret-key'' audio_request ''https://example.org/watch'' ''audio''
   \<and> adaptive_only_adapter ''https://example.org/watch'' = Inr (Some adaptive_only_info)
   \<and> adaptive_only_info \<noteq> []
   \<and> (\<exists>fs. formats_of adaptive_only_info = Inr fs \<and> filtered_formats ''audio'' fs = [])
   \<and> download ''mera-secret-key'' adaptive_only_adapter audio_request =
        (\<lparr>status = 400, body = [(''error'', Scalar (SStr ''No suitable audio format found''))]\<rparr>,
         [(''https://example.org/watch'', ''audio'')])
   \<and> (\<exists>res. extract_info sample_adapter ''https://example.org/watch'' ''audio'' = Inr res
        \<and> download ''mera-secret-key'' sample_adapter audio_request =
            (\<lparr>status = 200, body = res\<rparr>, [(''https://example.org/watch'', ''audio'')])
        \<and> map_of res ''stream_url'' = Some (Scalar (SStr ''https://cdn.example/a48'')))"
proof -
  have f: "formats_of adaptive_only_info = Inr [[(''format_id'', SStr ''137''), (''acodec'', SStr ''none''),
        (''vcodec'', SStr ''avc1.640028''), (''height'', SInt 1080), (''fps'', SInt 30),
        (''url'', SStr ''https://cdn.example/v1080only'')]]"
    by (simp add: formats_of_def adaptive_only_info_def dict_get_default_def)
  have e: "filtered_formats ''audio'' [[(''format_id'', SStr ''137''), (''acodec'', SStr ''none''),
        (''vcodec'', SStr ''avc1.640028''), (''height'', SInt 1080), (''fps'', SInt 30),
        (''url'', SStr ''https://cdn.example/v1080only'')]] = []"
    by (simp add: filtered_formats_def is_audio_only_def dict_get_def dict_get_default_def)
  have a: "adaptive_only_adapter ''https://example.org/watch'' = Inr (Some adaptive_only_info)"
    by (simp add: adaptive_only_adapter_def)
  have n: "adaptive_only_info \<noteq> []" by (simp add: adaptive_only_info_def)
  obtain res where r: "extract_info sample_adapter ''https://example.org/watch'' ''audio'' = Inr res"
      and s: "map_of res ''stream_url'' = Some (Scalar (SStr ''https://cdn.example/a48''))"
    by (simp add: sample_defs model_defs)
  show ?thesis
    using download_no_suitable_400_success_200 [OF audio_request_valid, of adaptive_only_adapter]
      download_no_suitable_400_success_200 [OF audio_request_valid, of sample_adapter]
      audio_request_valid f e a n r s
    by auto
qed


section \<open>The call log of the download handler\<close>

text \<open>Where the call log of \<^verbatim>\<open>download\<close> comes from.\<close>

lemma download_try_calls:
  "snd (download_try ydl parsed) = [] \<or>
   (\<exists>d u mt. parsed = Inr (JObj d) \<and> dict_get_default d ''url'' JNull = JStr u
      \<and> media_type_of d = Inr mt \<and> (mt = ''audio'' \<or> mt = ''video'')
      \<and> (startswith u ''http://'' \<or> startswith u ''https://'')
      \<and> snd (download_try ydl parsed) = [(u, mt)])"
proof (cases parsed)
  case (Inl e)
  then show ?thesis by (simp add: download_try_def)
next
  case (Inr data)
  show ?thesis
  proof (cases data)
    case (JObj d)
    show ?thesis
    proof (cases "media_type_of d")
      case (Inl e)
      then show ?thesis using Inr JObj by (simp add: download_try_def)
    next
      case mt: (Inr mt)
      show ?thesis
      proof (cases "dict_get_default d ''url'' JNull")
        case (JStr u)
        then show ?thesis using Inr JObj mt
          by (auto simp: download_try_def split: sum.splits)
      qed (use Inr JObj mt in \<open>simp_all add: download_try_def\<close>)
    qed
  qed (use Inr in \<open>simp_all add: download_try_def\<close>)
qed

lemma download_calls_try:
  "snd (download api_key ydl req) = [] \<or>
   (api_key_header req = Some api_key \<and>
    snd (download api_key ydl req) = snd (download_try ydl (json_body req)))"
  by (cases "download_try ydl (json_body req)")
     (auto simp: download_def split: sum.splits exn.splits)


section \<open>URL validation\<close>

text \<open>
  The URL check of the \<^verbatim>\<open>download\<close> view function: a request whose \<^verbatim>\<open>url\<close> is not a
  string of scheme http(s) never reaches \<^verbatim>\<open>extract_info\<close>.
\<close>

lemma download_scheme_check:
  assumes "\<not> http_url (request_url req)"
  shows "snd (download api_key ydl req) = []
       \<and> (api_key_header req \<noteq> Some api_key \<longrightarrow> status (fst (download api_key ydl req)) = 401)
       \<and> (api_key_header req = Some api_key \<and> well_typed_body req \<longrightarrow>
            status (fst (download api_key ydl req)) = 400)"
proof -
  have calls: "snd (download api_key ydl req) = []"
    using download_calls_try [of api_key ydl req] download_try_calls [of ydl "json_body req"] assms
    by (auto simp: http_url_def request_url_def)
  have unauth: "status (fst (download api_key ydl req)) = 401" if "api_key_header req \<noteq> Some api_key"
    using that by (simp add: download_def unauthorized_def)
  have bad: "status (fst (download api_key ydl req)) = 400"
    if key: "api_key_header req = Some api_key" and wt: "well_typed_body req"
  proof -
    from wt obtain data where body: "json_body req = Inr data"
      by (cases "json_body req") (auto simp: well_typed_body_def)
    show ?thesis
    proof (cases "json_truthy data")
      case False
      then show ?thesis using key body by (simp add: download_def download_try_def)
    next
      case True
      with wt body obtain d where data: "data = JObj d"
        and ty: "map_of d ''type'' = None \<or> (\<exists>t. map_of d ''type'' = Some (JStr t))"
        and url: "(\<exists>u. dict_get_default d ''url'' JNull = JStr u)
                  \<or> \<not> json_truthy (dict_get_default d ''url'' JNull)"
        by (cases data) (auto simp: well_typed_body_def split: option.splits json.splits)
      from ty obtain mt where mt: "media_type_of d = Inr mt"
        by (auto simp: media_type_of_def dict_get_default_def)
      from True data have d: "d \<noteq> []" by simp
      have blk: "download_try ydl (json_body req) =
          (if \<not> json_truthy (dict_get_default d ''url'' JNull) then
             (Inr \<lparr>status = 400, body = error_body (''Missing '' @ quoted ''url'' @ '' in request'')\<rparr>, [])
           else if mt \<noteq> ''audio'' \<and> mt \<noteq> ''video'' then
             (Inr \<lparr>status = 400,
                   body = error_body (''Invalid '' @ quoted ''type'' @ ''. Use ''
                            @ quoted ''audio'' @ '' or '' @ quoted ''video'' @ ''.'')\<rparr>, [])
           else
             (case dict_get_default d ''url'' JNull of
                JStr u \<Rightarrow>
                  if \<not> (startswith u ''http://'' \<or> startswith u ''https://'') then
                    (Inr \<lparr>status = 400, body = error_body ''Invalid URL format''\<rparr>, [])
                  else
                    (case extract_info ydl u mt of
                       Inl e \<Rightarrow> (Inl e, [(u, mt)])
                     | Inr result \<Rightarrow> (Inr \<lparr>status = 200, body = result\<rparr>, [(u, mt)]))
              | v \<Rightarrow> (Inl (no_attribute (json_type v) ''startswith''), [])))"
        using body data d mt by (simp add: download_try_def Let_def)
      from assms body data have nh: "\<not> http_url (dict_get_default d ''url'' JNull)"
        by (simp add: request_url_def)
      show ?thesis
      proof (cases "json_truthy (dict_get_default d ''url'' JNull)")
        case False
        then show ?thesis using key blk by (simp add: download_def)
      next
        case t: True
        with url obtain u where u: "dict_get_default d ''url'' JNull = JStr u" by auto
        with nh have "\<not> (startswith u ''http://'' \<or> startswith u ''https://'')"
          by (simp add: http_url_def)
        then show ?thesis using key blk t u by (simp add: download_def)
      qed
    qed
  qed
  from calls unauth bad show ?thesis by blast
qed

text \<open>
  Claim C3, as amended. For every \<^verbatim>\<open>POST /api/download\<close> request whose \<^verbatim>\<open>url\<close> is not a
  string starting with \<^verbatim>\<open>http://\<close> or \<^verbatim>\<open>https://\<close>, \<^verbatim>\<open>extract_info\<close> is never invoked;
  when the rate limiter admits the request, the status is 401 if the API key is missing or
  wrong, and 400 if the key matches and the body parses to a falsy value (such as
  \<^verbatim>\<open>{}\<close> or \<^verbatim>\<open>null\<close>) or to a JSON object whose type is absent or a string and whose url is
  absent, falsy or a string. (As stated the claim fails: the limiter and the key check
  come first; a url or type that is not a string, a body that is not an object and a body
  that cannot be parsed are answered 500; and \<^verbatim>\<open>GET /api/info\<close> has no scheme check at
  all. See the counterexample.)
\<close>

theorem download_non_http_url:
  assumes "\<not> http_url (request_url req)"
  shows "extractions (api_download limiter api_key ydl req) = []
       \<and> (\<not> limiter ''10 per minute'' \<and> api_key_header req \<noteq> Some api_key \<longrightarrow>
            http_status (api_download limiter api_key ydl req) = 401)
       \<and> (\<not> limiter ''10 per minute'' \<and> api_key_header req = Some api_key \<and> well_typed_body req \<longrightarrow>
            http_status (api_download limiter api_key ydl req) = 400)"
  using download_scheme_check [OF assms, of api_key ydl]
  by (simp add: api_download_observed)

theorem download_non_http_url_witness:
  "\<not> http_url (request_url ftp_download_request)
   \<and> \<not> within_limit ''10 per minute''
   \<and> api_key_header ftp_download_request = Some ''mera-secret-key''
   \<and> well_typed_body ftp_download_request
   \<and> extractions (api_download within_limit ''mera-secret-key'' sample_adapter ftp_download_request) = []
   \<and> http_status (api_download within_limit ''mera-secret-key'' sample_adapter ftp_download_request) = 400"
proof -
  have a: "\<not> http_url (request_url ftp_download_request)"
    by (simp add: http_url_def request_url_def ftp_download_request_def dict_get_default_def startswith_def)
  have b: "well_typed_body ftp_download_request"
    by (simp add: well_typed_body_def ftp_download_request_def dict_get_default_def)
  have c: "api_key_header ftp_download_request = Some ''mera-secret-key''"
    by (simp add: ftp_download_request_def)
  have l: "\<not> within_limit ''10 per minute''"
    by (simp add: within_limit_def)
  show ?thesis
    using download_non_http_url [OF a, of within_limit "''mera-secret-key''" sample_adapter] a b c l
    by simp
qed

text \<open>
  The requests of the counterexample: over the limit; without a key; with a number as
  \<^verbatim>\<open>url\<close>; with a number as \<^verbatim>\<open>type\<close>; with a list as body; with a body that
  \<^verbatim>\<open>get_json\<close> rejects; and \<^verbatim>\<open>GET /api/info\<close> with an \<^verbatim>\<open>ftp://\<close> URL, which is extracted.
\<close>

lemma download_500_samples:
  "status (fst (download ''mera-secret-key'' sample_adapter numeric_url_request)) = 500"
  "status (fst (download ''mera-secret-key'' sample_adapter numeric_type_ftp_request)) = 500"
  "status (fst (download ''mera-secret-key'' sample_adapter list_body_request)) = 500"
  "status (fst (download ''mera-secret-key'' sample_adapter unparsed_body_request)) = 500"
  by (simp_all add: download_def download_try_def numeric_url_request_def numeric_type_ftp_request_def
      list_body_request_def unparsed_body_request_def dict_get_default_def media_type_of_def
      py_lower_def lower_char_def no_attribute_def)

theorem non_http_url_counterexample:
  "\<not> http_url (request_url ftp_download_request)
   \<and> http_status (api_download over_limit ''mera-secret-key'' sample_adapter ftp_download_request) = 429
   \<and> \<not> http_url (request_url unauthenticated_ftp_request)
   \<and> http_status (api_download within_limit ''mera-secret-key'' sample_adapter unauthenticated_ftp_request) = 401
   \<and> \<not> http_url (request_url numeric_url_request)
   \<and> http_status (api_download within_limit ''mera-secret-key'' sample_adapter numeric_url_request) = 500
   \<and> \<not> http_url (request_url numeric_type_ftp_request)
   \<and> http_status (api_download within_limit ''mera-secret-key'' sample_adapter numeric_type_ftp_request) = 500
   \<and> \<not> http_url (request_url list_body_request)
   \<and> http_status (api_download within_limit ''mera-secret-key'' sample_adapter list_body_request) = 500
   \<and> \<not> http_url (request_url unparsed_body_request)
   \<and> http_status (api_download within_limit ''mera-secret-key'' sample_adapter unparsed_body_request) = 500
   \<and> \<not> startswith ''ftp://example.org/v'' ''http://''
   \<and> \<not> startswith ''ftp://example.org/v'' ''https://''
   \<and> url_arg ftp_info_request = Some ''ftp://example.org/v''
   \<and> http_status (api_info within_limit ''mera-secret-key'' sample_adapter ftp_info_request) = 200
   \<and> extractions (api_info within_limit ''mera-secret-key'' sample_adapter ftp_info_request) =
        [(''ftp://example.org/v'', ''video'')]"
proof -
  obtain res where r: "extract_info sample_adapter ''ftp://example.org/v'' ''video'' = Inr res"
    by (simp add: sample_defs model_defs)
  have urls: "\<not> http_url (request_url ftp_download_request)"
    "\<not> http_url (request_url unauthenticated_ftp_request)"
    "\<not> http_url (request_url numeric_url_request)"
    "\<not> http_url (request_url numeric_type_ftp_request)"
    "\<not> http_url (request_url list_body_request)"
    "\<not> http_url (request_url unparsed_body_request)"
    by (simp_all add: http_url_def request_url_def ftp_download_request_def
        unauthenticated_ftp_request_def numeric_url_request_def numeric_type_ftp_request_def
        list_body_request_def unparsed_body_request_def dict_get_default_def startswith_def)
  have unauth: "status (fst (download ''mera-secret-key'' sample_adapter unauthenticated_ftp_request)) = 401"
    by (simp add: download_def unauthenticated_ftp_request_def unauthorized_def)
  have info: "get_info ''mera-secret-key'' sample_adapter ftp_info_request =
      (\<lparr>status = 200, body = dict_pop res ''stream_url''\<rparr>, [(''ftp://example.org/v'', ''video'')])"
    using r by (simp add: get_info_def ftp_info_request_def)
  show ?thesis
    using urls unauth info download_500_samples
    by (simp add: api_download_observed api_info_observed within_limit_def over_limit_def
        startswith_def ftp_info_request_def)
qed


section \<open>The media type of a download request\<close>

lemma py_lower_examples:
  "py_lower ''audio'' = ''audio''" "py_lower ''Audio'' = ''audio''" "py_lower ''VIDEO'' = ''video''"
  by (simp_all add: py_lower_def lower_char_def)

lemma media_type_of_absent: "map_of d ''type'' = None \<Longrightarrow> media_type_of d = Inr ''audio''"
  by (simp add: media_type_of_def dict_get_default_def py_lower_examples)

lemma media_type_of_string: "map_of d ''type'' = Some (JStr t) \<Longrightarrow> media_type_of d = Inr (py_lower t)"
  by (simp add: media_type_of_def dict_get_default_def)

lemma download_invalid_type:
  assumes key: "api_key_header req = Some api_key" and body: "json_body req = Inr (JObj d)"
    and ty: "map_of d ''type'' = Some (JStr t)" and bad: "py_lower t \<noteq> ''audio''" "py_lower t \<noteq> ''video''"
  shows "status (fst (download api_key ydl req)) = 400" "snd (download api_key ydl req) = []"
proof -
  from ty have d: "d \<noteq> []" by auto
  have mt: "media_type_of d = Inr (py_lower t)" using ty by (rule media_type_of_string)
  show "status (fst (download api_key ydl req)) = 400"
  proof (cases "json_truthy (dict_get_default d ''url'' JNull)")
    case True
    then show ?thesis using key body d mt bad by (simp add: download_def download_try_def)
  next
    case False
    then show ?thesis using key body d mt by (simp add: download_def download_try_def)
  qed
  show "snd (download api_key ydl req) = []"
    using download_calls_try [of api_key ydl req] download_try_calls [of ydl "json_body req"]
      body mt bad
    by auto
qed

lemma download_valid_type:
  assumes key: "api_key_header req = Some api_key" and body: "json_body req = Inr (JObj d)"
    and mt: "media_type_of d = Inr mt" "mt = ''audio'' \<or> mt = ''video''"
    and url: "dict_get_default d ''url'' JNull = JStr u"
      "startswith u ''http://'' \<or> startswith u ''https://''"
  shows "snd (download api_key ydl req) = [(u, mt)]"
proof -
  have "passes_validation api_key req u mt"
    using key body mt url by (simp add: passes_validation_def)
  from passes_validationD [OF this, of ydl] show ?thesis
    by (simp split: sum.splits exn.splits)
qed

text \<open>
  Claim C8, as amended. For every \<^verbatim>\<open>POST /api/download\<close> request that the rate limiter
  admits, with a matching API key and a JSON object as body: without a \<^verbatim>\<open>type\<close> field the
  media type is \<^verbatim>\<open>"audio"\<close>; a string \<^verbatim>\<open>type\<close> is lowercased before it is tested (so
  \<^verbatim>\<open>"Audio"\<close> and \<^verbatim>\<open>"VIDEO"\<close> are accepted: with an http(s) url, extraction runs with the
  lowercased type); and a string \<^verbatim>\<open>type\<close> whose lowercase form is neither \<^verbatim>\<open>"audio"\<close> nor
  \<^verbatim>\<open>"video"\<close> is answered with 400, without extraction. (As stated, for every request, the
  claim fails: over the limit the answer is 429 and without a valid key it is 401,
  whatever the type is; a type that is not a string, and a body that is not an object, are
  answered 500. See the counterexample.)
\<close>

theorem download_type_handling:
  assumes lim: "\<not> limiter ''10 per minute''"
    and key: "api_key_header req = Some api_key" and body: "json_body req = Inr (JObj d)"
  shows "(map_of d ''type'' = None \<longrightarrow> media_type_of d = Inr ''audio'')
       \<and> (\<forall>t. map_of d ''type'' = Some (JStr t) \<longrightarrow> media_type_of d = Inr (py_lower t))
       \<and> py_lower ''Audio'' = ''audio'' \<and> py_lower ''VIDEO'' = ''video''
       \<and> (\<forall>u mt. media_type_of d = Inr mt \<and> (mt = ''audio'' \<or> mt = ''video'')
              \<and> dict_get_default d ''url'' JNull = JStr u
              \<and> (startswith u ''http://'' \<or> startswith u ''https://'') \<longrightarrow>
            extractions (api_download limiter api_key ydl req) = [(u, mt)])
       \<and> (\<forall>t. map_of d ''type'' = Some (JStr t) \<and> py_lower t \<noteq> ''audio'' \<and> py_lower t \<noteq> ''video'' \<longrightarrow>
            http_status (api_download limiter api_key ydl req) = 400
            \<and> extractions (api_download limiter api_key ydl req) = [])"
proof -
  have accepted: "extractions (api_download limiter api_key ydl req) = [(u, mt)]"
    if "media_type_of d = Inr mt" "mt = ''audio'' \<or> mt = ''video''"
       "dict_get_default d ''url'' JNull = JStr u" "startswith u ''http://'' \<or> startswith u ''https://''"
    for u mt
    using download_valid_type [OF key body that, of ydl] lim by (simp add: api_download_observed)
  have refused: "http_status (api_download limiter api_key ydl req) = 400
            \<and> extractions (api_download limiter api_key ydl req) = []"
    if "map_of d ''type'' = Some (JStr t)" "py_lower t \<noteq> ''audio''" "py_lower t \<noteq> ''video''" for t
    using download_invalid_type [OF key body that, of ydl] lim by (simp add: api_download_observed)
  show ?thesis
    using media_type_of_absent [of d] media_type_of_string [of d] accepted refused py_lower_examples
    by blast
qed

theorem download_type_handling_witness:
  "\<not> within_limit ''10 per minute''
   \<and> api_key_header upper_video_request = Some ''mera-secret-key''
   \<and> api_key_header flac_request = Some ''mera-secret-key''
   \<and> api_key_header audio_request = Some ''mera-secret-key''
   \<and> extractions (api_download within_limit ''mera-secret-key'' sample_adapter audio_request) =
        [(''https://example.org/watch'', ''audio'')]
   \<and> extractions (api_download within_limit ''mera-secret-key'' sample_adapter upper_video_request) =
        [(''https://example.org/watch'', ''video'')]
   \<and> http_status (api_download within_limit ''mera-secret-key'' sample_adapter flac_request) = 400
   \<and> extractions (api_download within_limit ''mera-secret-key'' sample_adapter flac_request) = []"
proof -
  let ?u = "''https://example.org/watch''"
  have w: "\<not> within_limit ''10 per minute''" by (simp add: within_limit_def)
  have k: "api_key_header upper_video_request = Some ''mera-secret-key''"
    "api_key_header flac_request = Some ''mera-secret-key''"
    "api_key_header audio_request = Some ''mera-secret-key''"
    by (simp_all add: upper_video_request_def flac_request_def audio_request_def)
  have b1: "json_body audio_request = Inr (JObj [(''url'', JStr ?u)])"
    by (simp add: audio_request_def)
  have b2: "json_body upper_video_request = Inr (JObj [(''url'', JStr ?u), (''type'', JStr ''VIDEO'')])"
    by (simp add: upper_video_request_def)
  have b3: "json_body flac_request = Inr (JObj [(''url'', JStr ?u), (''type'', JStr ''flac'')])"
    by (simp add: flac_request_def)
  have s: "startswith ?u ''https://''" by (simp add: startswith_def)
  have l: "py_lower ''flac'' = ''flac''" by (simp add: py_lower_def lower_char_def)
  have u1: "dict_get_default [(''url'', JStr ?u)] ''url'' JNull = JStr ?u"
    "dict_get_default [(''url'', JStr ?u), (''type'', JStr ''VIDEO'')] ''url'' JNull = JStr ?u"
    by (simp_all add: dict_get_default_def)
  have a: "extractions (api_download within_limit ''mera-secret-key'' sample_adapter audio_request) =
      [(?u, ''audio'')]"
    using download_type_handling [where limiter = within_limit and ydl = sample_adapter, OF w k(3) b1] s u1 by simp
  have v: "extractions (api_download within_limit ''mera-secret-key'' sample_adapter upper_video_request) =
      [(?u, ''video'')]"
    using download_type_handling [where limiter = within_limit and ydl = sample_adapter, OF w k(1) b2] s u1 by simp
  have f: "http_status (api_download within_limit ''mera-secret-key'' sample_adapter flac_request) = 400
      \<and> extractions (api_download within_limit ''mera-secret-key'' sample_adapter flac_request) = []"
    using download_type_handling [where limiter = within_limit and ydl = sample_adapter, OF w k(2) b3] l by simp
  from w k a v f show ?thesis by simp
qed

theorem type_validation_counterexample:
  "py_lower ''flac'' \<noteq> ''audio'' \<and> py_lower ''flac'' \<noteq> ''video''
   \<and> api_key_header flac_request = Some ''mera-secret-key''
   \<and> http_status (api_download over_limit ''mera-secret-key'' sample_adapter flac_request) = 429
   \<and> http_status (api_download within_limit ''mera-secret-key'' sample_adapter
        unauthenticated_flac_request) = 401
   \<and> json_body numeric_type_request =
        Inr (JObj [(''url'', JStr ''https://example.org/watch''), (''type'', JInt 5)])
   \<and> http_status (api_download within_limit ''mera-secret-key'' sample_adapter numeric_type_request) = 500
   \<and> json_body list_body_request = Inr (JList [JStr ''ftp://example.org/v''])
   \<and> http_status (api_download within_limit ''mera-secret-key'' sample_adapter list_body_request) = 500"
  by (simp add: py_lower_def lower_char_def api_download_observed within_limit_def over_limit_def
      download_def download_try_def flac_request_def unauthenticated_flac_request_def unauthorized_def
      numeric_type_request_def list_body_request_def dict_get_default_def media_type_of_def
      no_attribute_def)


section \<open>Error handling at the handler boundary\<close>

text \<open>
  A response that the \<^verbatim>\<open>try\<close> block of \<^verbatim>\<open>download\<close> returns is the 200 of a successful
  extraction or one of the 400 answers of the validation; an exception that it raises is
  answered by one of the two \<^verbatim>\<open>except\<close> clauses.
\<close>

lemma download_try_Inr:
  assumes "download_try ydl parsed = (Inr r, calls)"
  shows "status r = 200 \<or> (\<exists>m. r = \<lparr>status = 400, body = error_body m\<rparr>)"
proof (cases parsed)
  case (Inl e)
  then show ?thesis using assms by (simp add: download_try_def)
next
  case (Inr data)
  show ?thesis
  proof (cases data)
    case (JObj d)
    show ?thesis
    proof (cases "media_type_of d")
      case (Inl e)
      then show ?thesis using assms Inr JObj by (auto simp: download_try_def split: if_splits)
    next
      case mt: (Inr mt)
      show ?thesis
      proof (cases "dict_get_default d ''url'' JNull")
        case (JStr u)
        then show ?thesis using assms Inr JObj mt
          by (auto simp: download_try_def split: sum.splits if_splits)
      qed (use assms Inr JObj mt in \<open>auto simp: download_try_def split: if_splits\<close>)
    qed
  qed (use assms Inr in \<open>auto simp: download_try_def split: if_splits\<close>)
qed

lemma download_raised:
  assumes "api_key_header req = Some api_key" "download_try ydl (json_body req) = (Inl e, calls)"
  shows "download api_key ydl req =
     (case e of
        ValueError m \<Rightarrow> (\<lparr>status = 400, body = error_body m\<rparr>, calls)
      | _ \<Rightarrow> (\<lparr>status = 500,
                body = error_details_body ''An unexpected error occurred'' (exn_str e)\<rparr>, calls))"
  using assms by (cases e) (simp_all add: download_def)

lemma download_returned:
  assumes "api_key_header req = Some api_key" "download_try ydl (json_body req) = (Inr r, calls)"
  shows "download api_key ydl req = (r, calls)"
  using assms by (simp add: download_def)

lemma download_enveloped:
  assumes ne: "status (fst (download api_key ydl dreq)) \<noteq> 200"
  shows "(\<exists>m. body (fst (download api_key ydl dreq)) = [(''error'', Scalar (SStr m))])
      \<or> (\<exists>m d. body (fst (download api_key ydl dreq)) =
            [(''error'', Scalar (SStr m)), (''details'', Scalar (SStr d))])"
proof (cases "api_key_header dreq = Some api_key")
  case False
  then show ?thesis by (simp add: download_def unauthorized_def error_body_def)
next
  case key: True
  obtain out c where t: "download_try ydl (json_body dreq) = (out, c)" by force
  show ?thesis
  proof (cases out)
    case (Inl e)
    show ?thesis using download_raised [OF key t [unfolded Inl]]
      by (cases e) (simp_all add: error_body_def error_details_body_def)
  next
    case (Inr r)
    from download_returned [OF key t [unfolded Inr]] download_try_Inr [OF t [unfolded Inr]] ne
    show ?thesis by (auto simp: error_body_def)
  qed
qed

lemma get_info_enveloped:
  assumes "status (fst (get_info api_key ydl ireq)) \<noteq> 200"
  shows "\<exists>m. body (fst (get_info api_key ydl ireq)) = [(''error'', Scalar (SStr m))]"
  using assms
  by (auto simp: get_info_def unauthorized_def error_body_def split: option.splits sum.splits if_splits)

lemma audio_request_try_failing:
  "download_try failing_adapter (json_body audio_request) =
     (Inl (OtherException ''unreachable host''), [(''https://example.org/watch'', ''audio'')])"
  by (simp add: download_try_def audio_request_def dict_get_default_def media_type_of_def
      py_lower_def lower_char_def startswith_def extract_info_def failing_adapter_def)

lemma audio_request_try_value_error:
  "download_try value_error_adapter (json_body audio_request) =
     (Inl (ValueError ''invalid literal for int()''), [(''https://example.org/watch'', ''audio'')])"
  by (simp add: download_try_def audio_request_def dict_get_default_def media_type_of_def
      py_lower_def lower_char_def startswith_def extract_info_def value_error_adapter_def)

text \<open>
  Claim C7, as amended. For every request to \<^verbatim>\<open>POST /api/download\<close> or \<^verbatim>\<open>GET /api/info\<close>
  that the rate limiter admits, every response with a status other than 200 is a JSON
  error envelope: \<^verbatim>\<open>{"error": ...}\<close>, or \<^verbatim>\<open>{"error": ..., "details": ...}\<close>; so no exception
  leaves a handler. In \<^verbatim>\<open>POST /api/download\<close> a \<^verbatim>\<open>ValueError\<close> raised during handling,
  whatever raised it, is answered 400 with the text of the exception as the error
  message, and every other exception is answered 500 with the generic message
  \<^verbatim>\<open>An unexpected error occurred\<close> and the text of the exception carried separately as
  details. (As stated the claim fails: a request over the limit is answered with a page
  that is not JSON; an unanticipated \<^verbatim>\<open>ValueError\<close> of the extraction library is answered
  400 with its raw text as the error message; and \<^verbatim>\<open>GET /api/info\<close> answers every
  exception 500 with the raw text as the error message. See the counterexample.)
\<close>

theorem handler_errors_enveloped:
  assumes "\<not> limiter ''10 per minute''" and "\<not> limiter ''20 per minute''"
  shows "(\<exists>r calls. api_download limiter api_key ydl dreq = Served (r, calls)
            \<and> (status r \<noteq> 200 \<longrightarrow>
                 (\<exists>m. body r = [(''error'', Scalar (SStr m))])
                 \<or> (\<exists>m d. body r = [(''error'', Scalar (SStr m)), (''details'', Scalar (SStr d))])))
       \<and> (\<exists>r calls. api_info limiter api_key ydl ireq = Served (r, calls)
            \<and> (status r \<noteq> 200 \<longrightarrow> (\<exists>m. body r = [(''error'', Scalar (SStr m))])))
       \<and> (\<forall>e calls. api_key_header dreq = Some api_key
              \<and> download_try ydl (json_body dreq) = (Inl e, calls) \<longrightarrow>
            (case e of
               ValueError m \<Rightarrow>
                 api_download limiter api_key ydl dreq =
                   Served (\<lparr>status = 400, body = [(''error'', Scalar (SStr m))]\<rparr>, calls)
             | _ \<Rightarrow>
                 api_download limiter api_key ydl dreq =
                   Served (\<lparr>status = 500,
                            body = [(''error'', Scalar (SStr ''An unexpected error occurred'')),
                                    (''details'', Scalar (SStr (exn_str e)))]\<rparr>, calls)))"
proof -
  have d: "\<exists>r calls. api_download limiter api_key ydl dreq = Served (r, calls)
            \<and> (status r \<noteq> 200 \<longrightarrow>
                 (\<exists>m. body r = [(''error'', Scalar (SStr m))])
                 \<or> (\<exists>m d. body r = [(''error'', Scalar (SStr m)), (''details'', Scalar (SStr d))]))"
    using api_download_admitted [of limiter api_key ydl dreq] assms(1)
      download_enveloped [of api_key ydl dreq]
    by (cases "download api_key ydl dreq") auto
  have i: "\<exists>r calls. api_info limiter api_key ydl ireq = Served (r, calls)
            \<and> (status r \<noteq> 200 \<longrightarrow> (\<exists>m. body r = [(''error'', Scalar (SStr m))]))"
    using api_info_admitted [of limiter api_key ydl ireq] assms(2)
      get_info_enveloped [of api_key ydl ireq]
    by (cases "get_info api_key ydl ireq") auto
  have r: "(case e of
               ValueError m \<Rightarrow>
                 api_download limiter api_key ydl dreq =
                   Served (\<lparr>status = 400, body = [(''error'', Scalar (SStr m))]\<rparr>, calls)
             | _ \<Rightarrow>
                 api_download limiter api_key ydl dreq =
                   Served (\<lparr>status = 500,
                            body = [(''error'', Scalar (SStr ''An unexpected error occurred'')),
                                    (''details'', Scalar (SStr (exn_str e)))]\<rparr>, calls))"
    if "api_key_header dreq = Some api_key" "download_try ydl (json_body dreq) = (Inl e, calls)"
    for e calls
    using download_raised [OF that] api_download_admitted [of limiter api_key ydl dreq] assms(1)
    by (cases e) (simp_all add: error_body_def error_details_body_def)
  from d i r show ?thesis by blast
qed

theorem handler_errors_enveloped_witness:
  "\<not> within_limit ''10 per minute'' \<and> \<not> within_limit ''20 per minute''
   \<and> api_key_header audio_request = Some ''mera-secret-key''
   \<and> download_try failing_adapter (json_body audio_request) =
        (Inl (OtherException ''unreachable host''), [(''https://example.org/watch'', ''audio'')])
   \<and> api_download within_limit ''mera-secret-key'' failing_adapter audio_request =
        Served (\<lparr>status = 500,
                 body = [(''error'', Scalar (SStr ''An unexpected error occurred'')),
                         (''details'', Scalar (SStr ''unreachable host''))]\<rparr>,
                [(''https://example.org/watch'', ''audio'')])"
proof -
  have w: "\<not> within_limit ''10 per minute''" "\<not> within_limit ''20 per minute''"
    by (simp_all add: within_limit_def)
  have k: "api_key_header audio_request = Some ''mera-secret-key''"
    by (simp add: audio_request_def)
  show ?thesis
    using handler_errors_enveloped [where limiter = within_limit and api_key = "''mera-secret-key''"
        and ydl = failing_adapter and dreq = audio_request, OF w]
      w k audio_request_try_failing
    by simp
qed

theorem raw_exception_text_counterexample:
  "http_status (api_download over_limit ''mera-secret-key'' sample_adapter audio_request) = 429
   \<and> json_reply (api_download over_limit ''mera-secret-key'' sample_adapter audio_request) = None
   \<and> value_error_adapter ''https://example.org/watch'' = Inl (ValueError ''invalid literal for int()'')
   \<and> api_download within_limit ''mera-secret-key'' value_error_adapter audio_request =
       Served (\<lparr>status = 400, body = [(''error'', Scalar (SStr ''invalid literal for int()''))]\<rparr>,
               [(''https://example.org/watch'', ''audio'')])
   \<and> failing_adapter ''https://example.org/watch'' = Inl (OtherException ''unreachable host'')
   \<and> api_info within_limit ''mera-secret-key'' failing_adapter info_request_ok =
       Served (\<lparr>status = 500, body = [(''error'', Scalar (SStr ''unreachable host''))]\<rparr>,
               [(''https://example.org/watch'', ''video'')])"
  using audio_request_try_value_error
  by (simp add: api_download_observed api_download_def api_info_def limit_def within_limit_def
      over_limit_def download_def audio_request_def error_body_def get_info_def info_request_ok_def
      extract_info_def failing_adapter_def value_error_adapter_def)


section \<open>Candidates with a missing quality value\<close>

text \<open>
  Ordering \<^verbatim>\<open>None\<close> against anything raises \<^verbatim>\<open>TypeError\<close>, and \<^verbatim>\<open>TypeError\<close> is the only
  exception of the two comparisons.
\<close>

lemma scalar_gt_None:
  "a = SNone \<or> b = SNone \<Longrightarrow> \<exists>msg. scalar_gt a b = Inl (TypeError msg)"
  by (cases a; cases b) (auto simp: gt_unsupported_def)

lemma scalar_gt_InlD: "scalar_gt a b = Inl e \<Longrightarrow> \<exists>msg. e = TypeError msg"
  by (cases a; cases b) (auto simp: gt_unsupported_def)

lemma tuple_gt_InlD: "tuple_gt p q = Inl e \<Longrightarrow> \<exists>msg. e = TypeError msg"
  by (cases p; cases q) (auto split: if_splits dest: scalar_gt_InlD)

lemma tuple_gt_null_height:
  assumes "(fst p = SNone) \<noteq> (fst q = SNone)"
  shows "\<exists>msg. tuple_gt p q = Inl (TypeError msg)"
proof -
  obtain a1 b1 a2 b2 where p: "p = (a1, b1)" and q: "q = (a2, b2)"
    by (cases p; cases q) auto
  from assms p q have "a1 \<noteq> a2" "a1 = SNone \<or> a2 = SNone" by auto
  with scalar_gt_None [of a1 a2] p q show ?thesis by simp
qed

lemma tuple_gt_null_fps:
  assumes "fst p = fst q" "(snd p = SNone) \<noteq> (snd q = SNone)"
  shows "\<exists>msg. tuple_gt p q = Inl (TypeError msg)"
proof -
  obtain a1 b1 a2 b2 where p: "p = (a1, b1)" and q: "q = (a2, b2)"
    by (cases p; cases q) auto
  from assms p q have "a1 = a2" "b1 \<noteq> b2" "b1 = SNone \<or> b2 = SNone" by auto
  with scalar_gt_None [of b1 b2] p q show ?thesis by simp
qed

text \<open>
  The loop of \<^verbatim>\<open>max\<close> on sample rates: a \<^verbatim>\<open>None\<close> key, whether it is the running maximum
  or a later item, is compared as soon as the loop reaches it.
\<close>

lemma py_max_loop_scalar_null:
  assumes "key m = SNone \<or> (\<exists>x \<in> set xs. key x = SNone)" "xs \<noteq> []"
  shows "\<exists>msg. py_max_loop scalar_gt key m xs = Inl (TypeError msg)"
  using assms
proof (induction xs arbitrary: m)
  case Nil
  then show ?case by simp
next
  case (Cons x xs)
  show ?case
  proof (cases "scalar_gt (key x) (key m)")
    case (Inl e)
    with scalar_gt_InlD [of "key x" "key m" e] show ?thesis by auto
  next
    case (Inr b)
    with scalar_gt_None [of "key x" "key m"] have "key x \<noteq> SNone" "key m \<noteq> SNone" by auto
    with Cons.prems obtain y where y: "y \<in> set xs" "key y = SNone" by auto
    then have "key (if b then x else m) = SNone \<or> (\<exists>x \<in> set xs. key x = SNone)" "xs \<noteq> []"
      by auto
    from Cons.IH [OF this] Inr show ?thesis by simp
  qed
qed

text \<open>
  The loop of \<^verbatim>\<open>max\<close> on pairs: while no comparison raises, the height of the running
  maximum is \<^verbatim>\<open>None\<close> exactly if that of the first item is.
\<close>

lemma py_max_loop_tuple_null:
  assumes "\<exists>x \<in> set xs. (fst (key x) = SNone) \<noteq> (fst (key m) = SNone)"
  shows "\<exists>msg. py_max_loop tuple_gt key m xs = Inl (TypeError msg)"
  using assms
proof (induction xs arbitrary: m)
  case Nil
  then show ?case by simp
next
  case (Cons x xs)
  show ?case
  proof (cases "tuple_gt (key x) (key m)")
    case (Inl e)
    with tuple_gt_InlD [of "key x" "key m" e] show ?thesis by auto
  next
    case (Inr b)
    with tuple_gt_null_height [of "key x" "key m"]
    have same: "(fst (key x) = SNone) = (fst (key m) = SNone)" by auto
    with Cons.prems obtain y where y: "y \<in> set xs" "(fst (key y) = SNone) \<noteq> (fst (key m) = SNone)"
      by auto
    with same have "\<exists>z \<in> set xs. (fst (key z) = SNone) \<noteq> (fst (key (if b then x else m)) = SNone)"
      by auto
    from Cons.IH [OF this] Inr show ?thesis by simp
  qed
qed

text \<open>
  The same for the frame rates when all heights are equal, so that every comparison is
  decided by the frame rate.
\<close>

lemma py_max_loop_tuple_null_fps:
  assumes "\<forall>x \<in> set xs. fst (key x) = fst (key m)"
    and "\<exists>x \<in> set xs. (snd (key x) = SNone) \<noteq> (snd (key m) = SNone)"
  shows "\<exists>msg. py_max_loop tuple_gt key m xs = Inl (TypeError msg)"
  using assms
proof (induction xs arbitrary: m)
  case Nil
  then show ?case by simp
next
  case (Cons x xs)
  show ?case
  proof (cases "tuple_gt (key x) (key m)")
    case (Inl e)
    with tuple_gt_InlD [of "key x" "key m" e] show ?thesis by auto
  next
    case (Inr b)
    from Cons.prems(1) have h: "fst (key x) = fst (key m)" by simp
    with Inr tuple_gt_null_fps [of "key x" "key m"]
    have same: "(snd (key x) = SNone) = (snd (key m) = SNone)" by auto
    with Cons.prems(2) obtain y where y: "y \<in> set xs" "(snd (key y) = SNone) \<noteq> (snd (key m) = SNone)"
      by auto
    with same have "\<exists>z \<in> set xs. (snd (key z) = SNone) \<noteq> (snd (key (if b then x else m)) = SNone)"
      by auto
    moreover from Cons.prems(1) h have "\<forall>z \<in> set xs. fst (key z) = fst (key (if b then x else m))"
      by simp
    ultimately show ?thesis using Cons.IH [of "if b then x else m"] Inr by simp
  qed
qed

lemma best_audio_null:
  assumes "2 \<le> length cs" "\<exists>c \<in> set cs. audio_key c = SNone"
  shows "\<exists>msg. best_audio cs = Inl (TypeError msg)"
proof -
  from assms(1) obtain c rest where cs: "cs = c # rest" "rest \<noteq> []"
    by (cases cs) (auto simp: Suc_le_eq)
  with assms(2) have "audio_key c = SNone \<or> (\<exists>x \<in> set rest. audio_key x = SNone)" by auto
  from py_max_loop_scalar_null [OF this cs(2)] cs show ?thesis
    by (simp add: best_audio_def py_max_def)
qed

lemma best_video_null:
  assumes "\<exists>c \<in> set cs. fst (video_key c) = SNone" "\<exists>c \<in> set cs. fst (video_key c) \<noteq> SNone"
  shows "\<exists>msg. best_video cs = Inl (TypeError msg)"
proof -
  from assms(1) obtain c rest where cs: "cs = c # rest"
    by (cases cs) auto
  with assms have "\<exists>x \<in> set rest. (fst (video_key x) = SNone) \<noteq> (fst (video_key c) = SNone)"
    by auto
  from py_max_loop_tuple_null [OF this] cs show ?thesis
    by (simp add: best_video_def py_max_def)
qed

lemma best_video_null_fps:
  assumes "\<forall>c \<in> set cs. fst (video_key c) = h"
    and "\<exists>c \<in> set cs. snd (video_key c) = SNone" "\<exists>c \<in> set cs. snd (video_key c) \<noteq> SNone"
  shows "\<exists>msg. best_video cs = Inl (TypeError msg)"
proof -
  from assms(2) obtain c rest where cs: "cs = c # rest"
    by (cases cs) auto
  with assms have "\<forall>x \<in> set rest. fst (video_key x) = fst (video_key c)"
    and "\<exists>x \<in> set rest. (snd (video_key x) = SNone) \<noteq> (snd (video_key c) = SNone)"
    by auto
  from py_max_loop_tuple_null_fps [OF this] cs show ?thesis
    by (simp add: best_video_def py_max_def)
qed

text \<open>A \<^verbatim>\<open>TypeError\<close> of \<^verbatim>\<open>max\<close> leaves \<^verbatim>\<open>extract_info\<close> and is answered 500.\<close>

lemma extract_info_max_raises:
  assumes "ydl u = Inr (Some info)" "info \<noteq> []" "formats_of info = Inr fs"
    and "mt = ''audio'' \<and> best_audio (audio_formats fs) = Inl (TypeError msg)
       \<or> mt = ''video'' \<and> best_video (video_formats fs) = Inl (TypeError msg)"
  shows "extract_info ydl u mt = Inl (TypeError msg)"
proof -
  from assms(4) have "select_formats info mt = Inl (TypeError msg)"
  proof
    assume a: "mt = ''audio'' \<and> best_audio (audio_formats fs) = Inl (TypeError msg)"
    then have "audio_formats fs \<noteq> []" by (auto simp: best_audio_def py_max_def)
    with a assms(3) show ?thesis by (simp add: select_formats_def selected_url_def)
  next
    assume v: "mt = ''video'' \<and> best_video (video_formats fs) = Inl (TypeError msg)"
    then have "video_formats fs \<noteq> []" by (auto simp: best_video_def py_max_def)
    with v assms(3) show ?thesis by (simp add: select_formats_def selected_url_def)
  qed
  with assms(1,2) show ?thesis by (simp add: extract_info_def)
qed

lemma candidate_keys:
  "map_of (audio_entry f) ''asr'' = Some (dict_get f ''asr'')"
  "audio_key (audio_entry f) = dict_get f ''asr''"
  "map_of (video_entry f) ''height'' = Some (dict_get f ''height'')"
  "map_of (video_entry f) ''fps'' = Some (dict_get f ''fps'')"
  "video_key (video_entry f) = (dict_get f ''height'', dict_get f ''fps'')"
  by (simp_all add: audio_entry_def video_entry_def audio_key_def video_key_def dict_get_default_def)

lemma video_request_valid:
  "passes_validation ''mera-secret-key'' video_request ''https://example.org/watch'' ''video''"
  by (simp add: passes_validation_def video_request_def dict_get_default_def media_type_of_def
      py_lower_def lower_char_def startswith_def)

text \<open>
  Claim C9, as amended. Each candidate that \<^verbatim>\<open>extract_info\<close> builds has the key
  \<^verbatim>\<open>asr\<close> (audio), or \<^verbatim>\<open>height\<close> and \<^verbatim>\<open>fps\<close> (video), bound to what the raw format gives,
  \<^verbatim>\<open>None\<close> included, so that the default 0 of the key function is never used. For audio,
  \<^verbatim>\<open>max\<close> raises \<^verbatim>\<open>TypeError\<close> on every candidate list with at least two entries one of
  whose \<^verbatim>\<open>asr\<close> is \<^verbatim>\<open>None\<close>. For video, \<^verbatim>\<open>max\<close> raises \<^verbatim>\<open>TypeError\<close> on every candidate list
  in which some but not all heights are \<^verbatim>\<open>None\<close>, and on every candidate list of equal
  heights in which some but not all frame rates are \<^verbatim>\<open>None\<close>. Whenever \<^verbatim>\<open>max\<close> raises \<^verbatim>\<open>TypeError\<close> for
  a request that the limiter admits and that passes authentication and validation,
  \<^verbatim>\<open>POST /api/download\<close> answers 500 with the generic message and the text of the
  exception as details. (As stated, for every list of two or more candidates with one
  such value \<^verbatim>\<open>None\<close>, the claim fails for video: pairs are ordered by their first unequal
  components only, so a \<^verbatim>\<open>None\<close> frame rate next to different heights is never compared;
  see the counterexample.)
\<close>

theorem null_quality_type_error:
  "(\<forall>f. map_of (audio_entry f) ''asr'' = Some (dict_get f ''asr'')
        \<and> audio_key (audio_entry f) = dict_get f ''asr'')
   \<and> (\<forall>f. map_of (video_entry f) ''height'' = Some (dict_get f ''height'')
        \<and> map_of (video_entry f) ''fps'' = Some (dict_get f ''fps'')
        \<and> video_key (video_entry f) = (dict_get f ''height'', dict_get f ''fps''))
   \<and> (\<forall>cs. 2 \<le> length cs \<and> (\<exists>c \<in> set cs. audio_key c = SNone) \<longrightarrow>
         (\<exists>msg. best_audio cs = Inl (TypeError msg)))
   \<and> (\<forall>cs. (\<exists>c \<in> set cs. fst (video_key c) = SNone) \<and> (\<exists>c \<in> set cs. fst (video_key c) \<noteq> SNone) \<longrightarrow>
         (\<exists>msg. best_video cs = Inl (TypeError msg)))
   \<and> (\<forall>cs h. (\<forall>c \<in> set cs. fst (video_key c) = h)
          \<and> (\<exists>c \<in> set cs. snd (video_key c) = SNone) \<and> (\<exists>c \<in> set cs. snd (video_key c) \<noteq> SNone) \<longrightarrow>
         (\<exists>msg. best_video cs = Inl (TypeError msg)))
   \<and> (\<forall>msg. \<not> limiter ''10 per minute'' \<and> passes_validation api_key req u mt
          \<and> ydl u = Inr (Some info) \<and> info \<noteq> [] \<and> formats_of info = Inr fs
          \<and> (mt = ''audio'' \<and> best_audio (audio_formats fs) = Inl (TypeError msg)
             \<or> mt = ''video'' \<and> best_video (video_formats fs) = Inl (TypeError msg)) \<longrightarrow>
        api_download limiter api_key ydl req =
          Served (\<lparr>status = 500,
                   body = [(''error'', Scalar (SStr ''An unexpected error occurred'')),
                           (''details'', Scalar (SStr msg))]\<rparr>, [(u, mt)]))"
proof -
  have answered: "api_download limiter api_key ydl req =
          Served (\<lparr>status = 500,
                   body = [(''error'', Scalar (SStr ''An unexpected error occurred'')),
                           (''details'', Scalar (SStr msg))]\<rparr>, [(u, mt)])"
    if lim: "\<not> limiter ''10 per minute''" and valid: "passes_validation api_key req u mt"
      and info: "ydl u = Inr (Some info)" "info \<noteq> []" "formats_of info = Inr fs"
      and raises: "mt = ''audio'' \<and> best_audio (audio_formats fs) = Inl (TypeError msg)
             \<or> mt = ''video'' \<and> best_video (video_formats fs) = Inl (TypeError msg)"
    for msg
    using extract_info_max_raises [of ydl u info fs mt msg] info raises
      passes_validationD [OF valid, of ydl]
      api_download_admitted [of limiter api_key ydl req] lim
    by (simp add: error_details_body_def)
  have fps: "\<exists>msg. best_video cs = Inl (TypeError msg)"
    if "(\<forall>c \<in> set cs. fst (video_key c) = h)
          \<and> (\<exists>c \<in> set cs. snd (video_key c) = SNone) \<and> (\<exists>c \<in> set cs. snd (video_key c) \<noteq> SNone)"
    for cs h
    using best_video_null_fps [of cs h] that by blast
  have height: "\<exists>msg. best_video cs = Inl (TypeError msg)"
    if "(\<exists>c \<in> set cs. fst (video_key c) = SNone) \<and> (\<exists>c \<in> set cs. fst (video_key c) \<noteq> SNone)"
    for cs
    using best_video_null [of cs] that by blast
  have audio: "\<exists>msg. best_audio cs = Inl (TypeError msg)"
    if "2 \<le> length cs \<and> (\<exists>c \<in> set cs. audio_key c = SNone)" for cs
    using best_audio_null [of cs] that by blast
  show ?thesis
    using candidate_keys audio height fps answered by blast
qed

theorem null_quality_type_error_witness:
  "2 \<le> length (audio_formats [audio_48000, audio_no_asr])
   \<and> audio_key (audio_entry audio_no_asr) = SNone
   \<and> (\<exists>msg. best_audio (audio_formats [audio_48000, audio_no_asr]) = Inl (TypeError msg))
   \<and> fst (video_key (video_entry muxed_no_height)) = SNone
   \<and> fst (video_key (video_entry muxed_720)) = SInt 720
   \<and> (\<exists>msg. best_video (video_formats [muxed_720, muxed_no_height]) = Inl (TypeError msg))
   \<and> video_key (video_entry muxed_720) = (SInt 720, SInt 30)
   \<and> video_key (video_entry muxed_720_no_fps) = (SInt 720, SNone)
   \<and> (\<exists>msg. best_video (video_formats [muxed_720, muxed_720_no_fps]) = Inl (TypeError msg))
   \<and> \<not> within_limit ''10 per minute''
   \<and> passes_validation ''mera-secret-key'' video_request ''https://example.org/watch'' ''video''
   \<and> null_height_adapter ''https://example.org/watch'' = Inr (Some null_height_info)
   \<and> formats_of null_height_info = Inr [muxed_720, muxed_no_height]
   \<and> (\<exists>msg. api_download within_limit ''mera-secret-key'' null_height_adapter video_request =
          Served (\<lparr>status = 500,
                   body = [(''error'', Scalar (SStr ''An unexpected error occurred'')),
                           (''details'', Scalar (SStr msg))]\<rparr>,
                  [(''https://example.org/watch'', ''video'')]))"
proof -
  have a: "audio_formats [audio_48000, audio_no_asr] = [audio_entry audio_48000, audio_entry audio_no_asr]"
    by (simp add: audio_48000_def audio_no_asr_def is_audio_only_def dict_get_def dict_get_default_def)
  have v: "video_formats [muxed_720, muxed_no_height] = [video_entry muxed_720, video_entry muxed_no_height]"
    by (simp add: muxed_720_def muxed_no_height_def is_muxed_def dict_get_def dict_get_default_def)
  have ka: "audio_key (audio_entry audio_no_asr) = SNone"
    by (simp add: candidate_keys audio_no_asr_def dict_get_def dict_get_default_def)
  have kv: "fst (video_key (video_entry muxed_no_height)) = SNone"
    "fst (video_key (video_entry muxed_720)) = SInt 720"
    by (simp_all add: candidate_keys muxed_no_height_def muxed_720_def dict_get_def dict_get_default_def)
  have v2: "video_formats [muxed_720, muxed_720_no_fps] = [video_entry muxed_720, video_entry muxed_720_no_fps]"
    by (simp add: muxed_720_def muxed_720_no_fps_def is_muxed_def dict_get_def dict_get_default_def)
  have kf: "video_key (video_entry muxed_720) = (SInt 720, SInt 30)"
    "video_key (video_entry muxed_720_no_fps) = (SInt 720, SNone)"
    by (simp_all add: candidate_keys muxed_720_def muxed_720_no_fps_def dict_get_def dict_get_default_def)
  have w: "\<not> within_limit ''10 per minute''" by (simp add: within_limit_def)
  have i: "null_height_adapter ''https://example.org/watch'' = Inr (Some null_height_info)"
    "null_height_info \<noteq> []" "formats_of null_height_info = Inr [muxed_720, muxed_no_height]"
    by (simp_all add: null_height_adapter_def null_height_info_def formats_of_def dict_get_default_def)
  note inst = null_quality_type_error [where limiter = within_limit and api_key = "''mera-secret-key''"
      and req = video_request and u = "''https://example.org/watch''" and mt = "''video''"
      and ydl = null_height_adapter and info = null_height_info and fs = "[muxed_720, muxed_no_height]"]
  from inst a ka have ba: "\<exists>msg. best_audio (audio_formats [audio_48000, audio_no_asr]) = Inl (TypeError msg)"
    by simp
  from inst v kv have "\<exists>msg. best_video [video_entry muxed_720, video_entry muxed_no_height] = Inl (TypeError msg)"
    by auto
  have "(\<forall>c \<in> set [video_entry muxed_720, video_entry muxed_720_no_fps]. fst (video_key c) = SInt 720)
      \<and> (\<exists>c \<in> set [video_entry muxed_720, video_entry muxed_720_no_fps]. snd (video_key c) = SNone)
      \<and> (\<exists>c \<in> set [video_entry muxed_720, video_entry muxed_720_no_fps]. snd (video_key c) \<noteq> SNone)"
    using kf by simp
  with inst have bf: "\<exists>msg. best_video (video_formats [muxed_720, muxed_720_no_fps]) = Inl (TypeError msg)"
    unfolding v2 by blast
  from \<open>\<exists>msg. best_video [video_entry muxed_720, video_entry muxed_no_height] = Inl (TypeError msg)\<close>
  obtain msg where bv: "best_video (video_formats [muxed_720, muxed_no_height]) = Inl (TypeError msg)"
    using v by auto
  from inst w video_request_valid i bv
  have "api_download within_limit ''mera-secret-key'' null_height_adapter video_request =
          Served (\<lparr>status = 500,
                   body = [(''error'', Scalar (SStr ''An unexpected error occurred'')),
                           (''details'', Scalar (SStr msg))]\<rparr>,
                  [(''https://example.org/watch'', ''video'')])"
    by blast
  with a ka kv kf ba bf bv w video_request_valid i show ?thesis by auto
qed

theorem null_fps_counterexample:
  "video_formats [muxed_720_no_fps, muxed_1080] = [video_entry muxed_720_no_fps, video_entry muxed_1080]
   \<and> video_key (video_entry muxed_720_no_fps) = (SInt 720, SNone)
   \<and> video_key (video_entry muxed_1080) = (SInt 1080, SInt 24)
   \<and> best_video (video_formats [muxed_720_no_fps, muxed_1080]) = Inr (video_entry muxed_1080)
   \<and> passes_validation ''mera-secret-key'' video_request ''https://example.org/watch'' ''video''
   \<and> null_fps_adapter ''https://example.org/watch'' = Inr (Some null_fps_info)
   \<and> formats_of null_fps_info = Inr [muxed_720_no_fps, muxed_1080]
   \<and> http_status (api_download within_limit ''mera-secret-key'' null_fps_adapter video_request) = 200
   \<and> (\<exists>res. json_reply (api_download within_limit ''mera-secret-key'' null_fps_adapter video_request)
               = Some res
         \<and> map_of res ''stream_url'' = Some (Scalar (SStr ''https://cdn.example/v1080'')))"
proof -
  have v: "video_formats [muxed_720_no_fps, muxed_1080] = [video_entry muxed_720_no_fps, video_entry muxed_1080]"
    by (simp add: muxed_720_no_fps_def muxed_1080_def is_muxed_def dict_get_def dict_get_default_def)
  have k: "video_key (video_entry muxed_720_no_fps) = (SInt 720, SNone)"
    "video_key (video_entry muxed_1080) = (SInt 1080, SInt 24)"
    by (simp_all add: candidate_keys muxed_720_no_fps_def muxed_1080_def dict_get_def dict_get_default_def)
  have b: "best_video (video_formats [muxed_720_no_fps, muxed_1080]) = Inr (video_entry muxed_1080)"
    unfolding v using k by (simp add: best_video_def py_max_def)
  have i: "null_fps_adapter ''https://example.org/watch'' = Inr (Some null_fps_info)"
    "formats_of null_fps_info = Inr [muxed_720_no_fps, muxed_1080]"
    by (simp_all add: null_fps_adapter_def null_fps_info_def formats_of_def dict_get_default_def)
  obtain res where r: "extract_info null_fps_adapter ''https://example.org/watch'' ''video'' = Inr res"
    and s: "map_of res ''stream_url'' = Some (Scalar (SStr ''https://cdn.example/v1080''))"
    by (simp add: null_fps_adapter_def null_fps_info_def muxed_720_no_fps_def muxed_1080_def model_defs)
  from passes_validationD [OF video_request_valid, of null_fps_adapter] r
  have d: "download ''mera-secret-key'' null_fps_adapter video_request =
      (\<lparr>status = 200, body = res\<rparr>, [(''https://example.org/watch'', ''video'')])"
    by simp
  from v k b i d s video_request_valid show ?thesis
    by (simp add: api_download_observed within_limit_def)
qed


section \<open>Selection among candidates with numeric quality values\<close>

text \<open>The filtered lists are the entries built from the formats that pass the test.\<close>

lemma audio_formats_filter: "audio_formats fs = map audio_entry (filter is_audio_only fs)"
  by (induction fs) simp_all

lemma video_formats_filter: "video_formats fs = map video_entry (filter is_muxed fs)"
  by (induction fs) simp_all

text \<open>
  When the comparison of keys is a strict order \<open>lt\<close> on the items, the loop of \<^verbatim>\<open>max\<close>
  returns the first item that no other item exceeds: every item before it is smaller, no
  item after it is greater.
\<close>

lemma py_max_loop_first_maximum:
  assumes gt: "\<And>x y. x \<in> set (m # xs) \<Longrightarrow> y \<in> set (m # xs) \<Longrightarrow> gt (key x) (key y) = Inr (lt y x)"
    and trans: "\<And>x y z. lt x y \<Longrightarrow> lt y z \<Longrightarrow> lt x z"
    and neg: "\<And>x y z. \<not> lt x y \<Longrightarrow> lt x z \<Longrightarrow> lt y z"
  shows "\<exists>ys c zs. m # xs = ys @ c # zs \<and> py_max_loop gt key m xs = Inr c
           \<and> (\<forall>y \<in> set ys. lt y c) \<and> (\<forall>z \<in> set zs. \<not> lt c z)"
  using gt
proof (induction xs arbitrary: m)
  case Nil
  have "[m] = [] @ m # [] \<and> py_max_loop gt key m [] = Inr m
      \<and> (\<forall>y \<in> set []. lt y m) \<and> (\<forall>z \<in> set []. \<not> lt m z)"
    by simp
  then show ?case by blast
next
  case (Cons x xs)
  have cmp: "gt (key x) (key m) = Inr (lt m x)"
    using Cons.prems [of x m] by simp
  show ?case
  proof (cases "lt m x")
    case True
    have "\<exists>ys c zs. x # xs = ys @ c # zs \<and> py_max_loop gt key x xs = Inr c
           \<and> (\<forall>y \<in> set ys. lt y c) \<and> (\<forall>z \<in> set zs. \<not> lt c z)"
    proof (rule Cons.IH)
      fix a b assume "a \<in> set (x # xs)" "b \<in> set (x # xs)"
      then show "gt (key a) (key b) = Inr (lt b a)" using Cons.prems [of a b] by auto
    qed
    then obtain ys c zs where d: "x # xs = ys @ c # zs" and r: "py_max_loop gt key x xs = Inr c"
      and b: "\<forall>y \<in> set ys. lt y c" and a: "\<forall>z \<in> set zs. \<not> lt c z"
      by blast
    have "lt m c"
    proof (cases ys)
      case Nil
      with d True show ?thesis by simp
    next
      case (Cons y ys')
      with d b have "lt x c" by simp
      with True show ?thesis by (rule trans)
    qed
    with d b a have "m # x # xs = (m # ys) @ c # zs \<and> (\<forall>y \<in> set (m # ys). lt y c)
        \<and> (\<forall>z \<in> set zs. \<not> lt c z)"
      by simp
    moreover have "py_max_loop gt key m (x # xs) = Inr c"
      using cmp True r by simp
    ultimately show ?thesis by blast
  next
    case False
    have "\<exists>ys c zs. m # xs = ys @ c # zs \<and> py_max_loop gt key m xs = Inr c
           \<and> (\<forall>y \<in> set ys. lt y c) \<and> (\<forall>z \<in> set zs. \<not> lt c z)"
    proof (rule Cons.IH)
      fix a b assume "a \<in> set (m # xs)" "b \<in> set (m # xs)"
      then show "gt (key a) (key b) = Inr (lt b a)" using Cons.prems [of a b] by auto
    qed
    then obtain ys c zs where d: "m # xs = ys @ c # zs" and r: "py_max_loop gt key m xs = Inr c"
      and b: "\<forall>y \<in> set ys. lt y c" and a: "\<forall>z \<in> set zs. \<not> lt c z"
      by blast
    have res: "py_max_loop gt key m (x # xs) = Inr c"
      using cmp False r by simp
    show ?thesis
    proof (cases ys)
      case Nil
      with d have "c = m" "zs = xs" by simp_all
      with a False have "m # x # xs = [] @ c # (x # xs) \<and> (\<forall>y \<in> set []. lt y c)
          \<and> (\<forall>z \<in> set (x # xs). \<not> lt c z)"
        by simp
      with res show ?thesis by blast
    next
      case (Cons y ys')
      with d have y: "y = m" and xs: "xs = ys' @ c # zs" by simp_all
      from b Cons y have "lt m c" by simp
      with False have "lt x c" by (rule neg)
      with b Cons y xs a have "m # x # xs = (m # x # ys') @ c # zs
          \<and> (\<forall>y \<in> set (m # x # ys'). lt y c) \<and> (\<forall>z \<in> set zs. \<not> lt c z)"
        by simp
      with res show ?thesis by blast
    qed
  qed
qed

text \<open>
  Audio candidates whose sample rates are all numbers: the entry selected is the first
  one of maximal sample rate.
\<close>

lemma best_audio_first_maximum:
  assumes "cs \<noteq> []" "\<forall>c \<in> set cs. \<exists>n. audio_key c = SInt n"
  shows "\<exists>ys c zs n. cs = ys @ c # zs \<and> best_audio cs = Inr c \<and> audio_key c = SInt n
           \<and> (\<forall>y \<in> set ys. \<exists>k. audio_key y = SInt k \<and> k < n)
           \<and> (\<forall>z \<in> set zs. \<exists>k. audio_key z = SInt k \<and> k \<le> n)"
proof -
  define rate where "rate x = (case audio_key x of SInt n \<Rightarrow> n | _ \<Rightarrow> 0)" for x
  define lt where "lt x y \<longleftrightarrow> rate x < rate y" for x y
  from assms(1) obtain m xs where cs: "cs = m # xs" by (cases cs) auto
  have key: "audio_key x = SInt (rate x)" if "x \<in> set cs" for x
    using assms(2) that by (auto simp: rate_def)
  have "\<exists>ys c zs. m # xs = ys @ c # zs \<and> py_max_loop scalar_gt audio_key m xs = Inr c
           \<and> (\<forall>y \<in> set ys. lt y c) \<and> (\<forall>z \<in> set zs. \<not> lt c z)"
  proof (rule py_max_loop_first_maximum)
    fix x y assume "x \<in> set (m # xs)" "y \<in> set (m # xs)"
    with key cs show "scalar_gt (audio_key x) (audio_key y) = Inr (lt y x)"
      by (simp add: lt_def)
  qed (auto simp: lt_def)
  moreover have "best_audio cs = py_max_loop scalar_gt audio_key m xs"
    using cs by (simp add: best_audio_def py_max_def)
  ultimately obtain ys c zs where d: "cs = ys @ c # zs" and r: "best_audio cs = Inr c"
    and b: "\<forall>y \<in> set ys. lt y c" and a: "\<forall>z \<in> set zs. \<not> lt c z"
    using cs by metis
  have "audio_key c = SInt (rate c)" using key d by simp
  moreover have "\<forall>y \<in> set ys. \<exists>k. audio_key y = SInt k \<and> k < rate c"
    using b key d by (auto simp: lt_def)
  moreover have "\<forall>z \<in> set zs. \<exists>k. audio_key z = SInt k \<and> k \<le> rate c"
    using a key d by (auto simp: lt_def not_less)
  ultimately show ?thesis using d r by blast
qed

text \<open>
  Video candidates whose heights and frame rates are all numbers: the entry selected is
  the first one whose pair (height, fps) is maximal in the lexicographic order.
\<close>

lemma best_video_first_maximum:
  assumes "cs \<noteq> []" "\<forall>c \<in> set cs. \<exists>h r. video_key c = (SInt h, SInt r)"
  shows "\<exists>ys c zs h r. cs = ys @ c # zs \<and> best_video cs = Inr c \<and> video_key c = (SInt h, SInt r)
           \<and> (\<forall>y \<in> set ys. \<exists>h' r'. video_key y = (SInt h', SInt r') \<and> (h' < h \<or> h' = h \<and> r' < r))
           \<and> (\<forall>z \<in> set zs. \<exists>h' r'. video_key z = (SInt h', SInt r') \<and> (h' < h \<or> h' = h \<and> r' \<le> r))"
proof -
  define height where "height x = (case fst (video_key x) of SInt n \<Rightarrow> n | _ \<Rightarrow> 0)" for x
  define rate where "rate x = (case snd (video_key x) of SInt n \<Rightarrow> n | _ \<Rightarrow> 0)" for x
  define lt where "lt x y \<longleftrightarrow> height x < height y \<or> height x = height y \<and> rate x < rate y" for x y
  from assms(1) obtain m xs where cs: "cs = m # xs" by (cases cs) auto
  have key: "video_key x = (SInt (height x), SInt (rate x))" if "x \<in> set cs" for x
    using assms(2) that by (auto simp: height_def rate_def)
  have "\<exists>ys c zs. m # xs = ys @ c # zs \<and> py_max_loop tuple_gt video_key m xs = Inr c
           \<and> (\<forall>y \<in> set ys. lt y c) \<and> (\<forall>z \<in> set zs. \<not> lt c z)"
  proof (rule py_max_loop_first_maximum)
    fix x y assume "x \<in> set (m # xs)" "y \<in> set (m # xs)"
    with key cs show "tuple_gt (video_key x) (video_key y) = Inr (lt y x)"
      by (auto simp: lt_def)
  qed (auto simp: lt_def)
  moreover have "best_video cs = py_max_loop tuple_gt video_key m xs"
    using cs by (simp add: best_video_def py_max_def)
  ultimately obtain ys c zs where d: "cs = ys @ c # zs" and r: "best_video cs = Inr c"
    and b: "\<forall>y \<in> set ys. lt y c" and a: "\<forall>z \<in> set zs. \<not> lt c z"
    using cs by metis
  have "video_key c = (SInt (height c), SInt (rate c))" using key d by simp
  moreover have "\<forall>y \<in> set ys. \<exists>h' r'. video_key y = (SInt h', SInt r')
      \<and> (h' < height c \<or> h' = height c \<and> r' < rate c)"
    using b key d by (auto simp: lt_def)
  moreover have "\<forall>z \<in> set zs. \<exists>h' r'. video_key z = (SInt h', SInt r')
      \<and> (h' < height c \<or> h' = height c \<and> r' \<le> rate c)"
  proof
    fix z assume z: "z \<in> set zs"
    with a have "\<not> lt c z" by simp
    then have "height z < height c \<or> height z = height c \<and> rate z \<le> rate c"
      by (auto simp: lt_def)
    moreover have "video_key z = (SInt (height z), SInt (rate z))" using key d z by simp
    ultimately show "\<exists>h' r'. video_key z = (SInt h', SInt r')
        \<and> (h' < height c \<or> h' = height c \<and> r' \<le> rate c)"
      by blast
  qed
  ultimately show ?thesis using d r by blast
qed

text \<open>The two examples of the specification.\<close>

lemma audio_sample_selects_48000:
  "audio_formats [audio_44100, audio_48000] = [audio_entry audio_44100, audio_entry audio_48000]"
  "best_audio [audio_entry audio_44100, audio_entry audio_48000] = Inr (audio_entry audio_48000)"
  "selected_url best_audio [audio_entry audio_44100, audio_entry audio_48000] =
     Inr (SStr ''https://cdn.example/a48'')"
  by (simp_all add: audio_44100_def audio_48000_def is_audio_only_def audio_entry_def audio_key_def
      best_audio_def py_max_def selected_url_def dict_index_def dict_get_def dict_get_default_def)

lemma video_sample_selects_1080:
  "video_formats [muxed_720, muxed_1080] = [video_entry muxed_720, video_entry muxed_1080]"
  "video_key (video_entry muxed_720) = (SInt 720, SInt 30)"
  "video_key (video_entry muxed_1080) = (SInt 1080, SInt 24)"
  "best_video [video_entry muxed_720, video_entry muxed_1080] = Inr (video_entry muxed_1080)"
  "selected_url best_video [video_entry muxed_720, video_entry muxed_1080] =
     Inr (SStr ''https://cdn.example/v1080'')"
  by (simp_all add: muxed_720_def muxed_1080_def is_muxed_def video_entry_def video_key_def
      best_video_def py_max_def selected_url_def dict_index_def dict_get_def dict_get_default_def)

section \<open>Selection among candidates with a missing quality value\<close>

text \<open>
  Claim C1. The audio selector keeps the entries built from the formats whose
  \<^verbatim>\<open>acodec\<close> is not \<^verbatim>\<open>"none"\<close> and whose \<^verbatim>\<open>vcodec\<close> is \<^verbatim>\<open>"none"\<close>, and among candidates with
  numeric sample rates it selects the first of maximal rate (lemmas above). It does not
  select an entry maximizing the sample rate from every non-empty filtered list: with the
  two audio-only formats below, the second without \<^verbatim>\<open>asr\<close>, the candidate's key is \<^verbatim>\<open>None\<close>
  and not the default 0, \<^verbatim>\<open>max\<close> raises \<^verbatim>\<open>TypeError\<close>, and the request is answered 500.
\<close>

theorem audio_null_sample_rate_fails:
  "audio_formats [audio_48000, audio_no_asr] = [audio_entry audio_48000, audio_entry audio_no_asr]
   \<and> audio_key (audio_entry audio_48000) = SInt 48000
   \<and> map_of (audio_entry audio_no_asr) ''asr'' = Some SNone
   \<and> audio_key (audio_entry audio_no_asr) = SNone
   \<and> best_audio (audio_formats [audio_48000, audio_no_asr]) = Inl (gt_unsupported SNone (SInt 48000))
   \<and> extract_info null_asr_adapter ''https://example.org/watch'' ''audio'' =
        Inl (gt_unsupported SNone (SInt 48000))
   \<and> api_download within_limit ''mera-secret-key'' null_asr_adapter audio_request =
        Served (\<lparr>status = 500,
                 body = [(''error'', Scalar (SStr ''An unexpected error occurred'')),
                         (''details'', Scalar (SStr (exn_str (gt_unsupported SNone (SInt 48000)))))]\<rparr>,
                [(''https://example.org/watch'', ''audio'')])"
proof -
  have a: "audio_formats [audio_48000, audio_no_asr] = [audio_entry audio_48000, audio_entry audio_no_asr]"
    by (simp add: audio_48000_def audio_no_asr_def is_audio_only_def dict_get_def dict_get_default_def)
  have k: "audio_key (audio_entry audio_48000) = SInt 48000"
    "map_of (audio_entry audio_no_asr) ''asr'' = Some SNone"
    "audio_key (audio_entry audio_no_asr) = SNone"
    by (simp_all add: audio_entry_def audio_key_def audio_48000_def audio_no_asr_def
        dict_get_def dict_get_default_def)
  have b: "best_audio (audio_formats [audio_48000, audio_no_asr]) = Inl (gt_unsupported SNone (SInt 48000))"
    unfolding a using k by (simp add: best_audio_def py_max_def)
  have f: "formats_of null_asr_info = Inr [audio_48000, audio_no_asr]"
    by (simp add: null_asr_info_def formats_of_def dict_get_default_def)
  have e: "extract_info null_asr_adapter ''https://example.org/watch'' ''audio'' =
      Inl (gt_unsupported SNone (SInt 48000))"
    using f b a
    by (simp add: extract_info_def null_asr_adapter_def select_formats_def selected_url_def)
       (simp add: null_asr_info_def)
  from passes_validationD [OF audio_request_valid, of null_asr_adapter] e
  have "download ''mera-secret-key'' null_asr_adapter audio_request =
      (\<lparr>status = 500,
        body = [(''error'', Scalar (SStr ''An unexpected error occurred'')),
                (''details'', Scalar (SStr (exn_str (gt_unsupported SNone (SInt 48000)))))]\<rparr>,
       [(''https://example.org/watch'', ''audio'')])"
    by (simp add: gt_unsupported_def error_details_body_def)
  with a k b e show ?thesis
    by (simp add: api_download_def limit_def within_limit_def)
qed

text \<open>
  Claim C2. The video selector keeps the entries built from the formats whose
  \<^verbatim>\<open>vcodec\<close> and \<^verbatim>\<open>acodec\<close> are both not \<^verbatim>\<open>"none"\<close>, and among candidates with numeric
  heights and frame rates it selects the first whose pair (height, fps) is maximal in the
  lexicographic order (lemmas above). It does not select an entry maximizing the pair
  from every non-empty filtered list: with the two muxed formats below, the second without
  \<^verbatim>\<open>height\<close>, the candidate's key is \<^verbatim>\<open>(None, 30)\<close> and not \<^verbatim>\<open>(0, 30)\<close>, \<^verbatim>\<open>max\<close> raises
  \<^verbatim>\<open>TypeError\<close>, and the request is answered 500.
\<close>

theorem video_null_height_fails:
  "video_formats [muxed_720, muxed_no_height] = [video_entry muxed_720, video_entry muxed_no_height]
   \<and> video_key (video_entry muxed_720) = (SInt 720, SInt 30)
   \<and> map_of (video_entry muxed_no_height) ''height'' = Some SNone
   \<and> video_key (video_entry muxed_no_height) = (SNone, SInt 30)
   \<and> best_video (video_formats [muxed_720, muxed_no_height]) = Inl (gt_unsupported SNone (SInt 720))
   \<and> extract_info null_height_adapter ''https://example.org/watch'' ''video'' =
        Inl (gt_unsupported SNone (SInt 720))
   \<and> api_download within_limit ''mera-secret-key'' null_height_adapter video_request =
        Served (\<lparr>status = 500,
                 body = [(''error'', Scalar (SStr ''An unexpected error occurred'')),
                         (''details'', Scalar (SStr (exn_str (gt_unsupported SNone (SInt 720)))))]\<rparr>,
                [(''https://example.org/watch'', ''video'')])"
proof -
  have a: "video_formats [muxed_720, muxed_no_height] = [video_entry muxed_720, video_entry muxed_no_height]"
    by (simp add: muxed_720_def muxed_no_height_def is_muxed_def dict_get_def dict_get_default_def)
  have k: "video_key (video_entry muxed_720) = (SInt 720, SInt 30)"
    "map_of (video_entry muxed_no_height) ''height'' = Some SNone"
    "video_key (video_entry muxed_no_height) = (SNone, SInt 30)"
    by (simp_all add: video_entry_def video_key_def muxed_720_def muxed_no_height_def
        dict_get_def dict_get_default_def)
  have b: "best_video (video_formats [muxed_720, muxed_no_height]) = Inl (gt_unsupported SNone (SInt 720))"
    unfolding a using k by (simp add: best_video_def py_max_def)
  have f: "formats_of null_height_info = Inr [muxed_720, muxed_no_height]"
    by (simp add: null_height_info_def formats_of_def dict_get_default_def)
  have e: "extract_info null_height_adapter ''https://example.org/watch'' ''video'' =
      Inl (gt_unsupported SNone (SInt 720))"
    using f b a
    by (simp add: extract_info_def null_height_adapter_def select_formats_def selected_url_def)
       (simp add: null_height_info_def)
  from passes_validationD [OF video_request_valid, of null_height_adapter] e
  have "download ''mera-secret-key'' null_height_adapter video_request =
      (\<lparr>status = 500,
        body = [(''error'', Scalar (SStr ''An unexpected error occurred'')),
                (''details'', Scalar (SStr (exn_str (gt_unsupported SNone (SInt 720)))))]\<rparr>,
       [(''https://example.org/watch'', ''video'')])"
    by (simp add: gt_unsupported_def error_details_body_def)
  with a k b e show ?thesis
    by (simp add: api_download_def limit_def within_limit_def)
qed


end
